theory Spec2Isabelle
  imports Complex_Main
begin

section \<open>Failures, outcomes and files\<close>

text \<open>
  The exceptions that \<^verbatim>\<open>ReadPhantom.py\<close> raises itself or lets NumPy raise, one
  constructor for each raise site:
  \<^item> \<open>ValueError_materials\<close>: "The number of materials must be larger than 1." (line 401);
  \<^item> \<open>SystemExit_request\<close>: the user answered n (line 418);
  \<^item> \<open>ValueError_negative_dimensions\<close>: \<^verbatim>\<open>np.zeros\<close> of a negative size (line 460);
  \<^item> \<open>ValueError_voxel_count actual expected\<close>: "Number of voxels read (actual) does not
    match expected total (expected)." (line 492);
  \<^item> \<open>ValueError_zero_size\<close>: \<^verbatim>\<open>np.max\<close> of an empty array (line 546);
  \<^item> \<open>ValueError_column_stack\<close>: \<^verbatim>\<open>np.column_stack\<close> of arrays of different lengths
    (line 93);
  \<^item> \<open>IndexError\<close>: an index outside an array or a list;
  \<^item> \<open>OverflowError\<close>: a Python integer that NumPy does not convert to the element type
    of the array it is assigned to (line 542).

  A run of \<^verbatim>\<open>readPhantom\<close> ends by falling off its end (\<open>Completed\<close>), by one of its
  bare \<^verbatim>\<open>return\<close> statements after printing a message (\<open>Returned\<close>), or by an exception
  (\<open>Raised\<close>).
\<close>

datatype error =
    ValueError_materials
  | SystemExit_request
  | ValueError_negative_dimensions
  | ValueError_voxel_count int int
  | ValueError_zero_size
  | ValueError_column_stack
  | IndexError
  | OverflowError

datatype outcome = Completed | Returned | Raised error

text \<open>
  A file is the list of its lines, each without its final newline: every \<^verbatim>\<open>write\<close> of the
  program writes exactly one newline-terminated line. The file system maps a path to the
  file stored there.
\<close>

type_synonym file_system = "string \<Rightarrow> string list option"

definition open_w :: "string \<Rightarrow> file_system \<Rightarrow> file_system" where
  \<comment> \<open>\<^verbatim>\<open>open(path, 'w')\<close>: the file is created or emptied.\<close>
  "open_w path fs = fs(path \<mapsto> [])"

definition write_lines :: "string \<Rightarrow> string list \<Rightarrow> file_system \<Rightarrow> file_system" where
  \<comment> \<open>Writing to a file opened with 'w' or 'a': the lines go to the end; 'a' creates a
      missing file.\<close>
  "write_lines path ls fs = fs(path \<mapsto> (case fs path of None \<Rightarrow> [] | Some old \<Rightarrow> old) @ ls)"

fun then_do ::
  "outcome \<times> file_system \<Rightarrow> (file_system \<Rightarrow> outcome \<times> file_system) \<Rightarrow> outcome \<times> file_system" where
  \<comment> \<open>Statement sequencing: the next statement runs only when the one before completed.\<close>
  "then_do (Completed, fs) next_stmt = next_stmt fs"
| "then_do (Returned, fs) next_stmt = (Returned, fs)"
| "then_do (Raised e, fs) next_stmt = (Raised e, fs)"

definition py_getitem :: "'a list \<Rightarrow> int \<Rightarrow> error + 'a" where
  \<comment> \<open>\<^verbatim>\<open>xs[i]\<close> of Python and NumPy; an index from \<open>- len\<close> to \<open>- 1\<close> counts from the end.\<close>
  "py_getitem xs i =
     (if 0 \<le> i \<and> i < int (length xs) then Inr (xs ! nat i)
      else if - int (length xs) \<le> i \<and> i < 0 then Inr (xs ! nat (int (length xs) + i))
      else Inl IndexError)"

definition py_range :: "int \<Rightarrow> int list" where
  \<comment> \<open>\<^verbatim>\<open>range(n)\<close>: empty when \<open>n \<le> 0\<close>.\<close>
  "py_range n = map int [0..<nat n]"

section \<open>Number formatting\<close>

text \<open>
  The format specifications the program uses: \<^verbatim>\<open>d\<close> with a width, \<^verbatim>\<open>f\<close> with a width and
  a precision, \<^verbatim>\<open>e\<close> with a precision. Resolutions and lengths are Python floats and are
  modelled as the real numbers they stand for: the value that is formatted is the exact
  value held, and it is rounded to the printed digits half-to-even, as the C library does.
  The rounding of the products \<^verbatim>\<open>vox_res * n_vox\<close>, infinite resolutions and NaN are outside
  this model.
\<close>

definition digit_char :: "nat \<Rightarrow> char" where
  "digit_char n = ''0123456789'' ! n"

fun dec_str :: "nat \<Rightarrow> string" where
  "dec_str n = (if n < 10 then [digit_char n] else dec_str (n div 10) @ [digit_char (n mod 10)])"

declare dec_str.simps [simp del]

definition rjust :: "nat \<Rightarrow> string \<Rightarrow> string" where
  "rjust w s = replicate (w - length s) CHR '' '' @ s"

definition zfill :: "nat \<Rightarrow> string \<Rightarrow> string" where
  "zfill w s = replicate (w - length s) CHR ''0'' @ s"

definition fmt_d :: "nat \<Rightarrow> int \<Rightarrow> string" where
  \<comment> \<open>\<^verbatim>\<open>{i:wd}\<close> and \<^verbatim>\<open>%wd\<close>; width 0 is the plain \<^verbatim>\<open>{i}\<close>.\<close>
  "fmt_d w i = rjust w ((if i < 0 then ''-'' else []) @ dec_str (nat \<bar>i\<bar>))"

definition round_half_even :: "real \<Rightarrow> int" where
  "round_half_even x =
     (let f = \<lfloor>x\<rfloor>; r = x - of_int f
      in if r < 1 / 2 then f else if 1 / 2 < r then f + 1 else if even f then f else f + 1)"

definition fixed_digits :: "nat \<Rightarrow> nat \<Rightarrow> string" where
  \<comment> \<open>The digits of \<open>n / 10 ^ p\<close> with \<open>p\<close> decimals.\<close>
  "fixed_digits p n =
     dec_str (n div 10 ^ p) @ (if p = 0 then [] else ''.'' @ zfill p (dec_str (n mod 10 ^ p)))"

definition fmt_f :: "nat \<Rightarrow> nat \<Rightarrow> real \<Rightarrow> string" where
  \<comment> \<open>\<^verbatim>\<open>{x:w.pf}\<close> and \<^verbatim>\<open>%w.pf\<close>.\<close>
  "fmt_f w p x =
     rjust w ((if x < 0 then ''-'' else [])
              @ fixed_digits p (nat (round_half_even (\<bar>x\<bar> * 10 ^ p))))"

function scale_down :: "real \<Rightarrow> int \<Rightarrow> real \<times> int" where
  "scale_down a e = (if 10 \<le> a then scale_down (a / 10) (e + 1) else (a, e))"
  by pat_completeness auto
termination
proof (relation "measure (\<lambda>(a, e). nat \<lceil>a\<rceil>)")
  show "wf (measure (\<lambda>(a::real, e::int). nat \<lceil>a\<rceil>))" by simp
next
  fix a :: real and e :: int
  assume "10 \<le> a"
  then have "\<lceil>a / 10\<rceil> < \<lceil>a\<rceil>" by linarith
  moreover have "0 < \<lceil>a\<rceil>" using \<open>10 \<le> a\<close> by linarith
  ultimately show "((a / 10, e + 1), (a, e)) \<in> measure (\<lambda>(a, e). nat \<lceil>a\<rceil>)" by simp
qed

function scale_up :: "real \<Rightarrow> int \<Rightarrow> real \<times> int" where
  "scale_up a e = (if 0 < a \<and> a < 1 then scale_up (a * 10) (e - 1) else (a, e))"
  by pat_completeness auto
termination
proof (relation "measure (\<lambda>(a, e). nat \<lceil>1 / a\<rceil>)")
  show "wf (measure (\<lambda>(a::real, e::int). nat \<lceil>1 / a\<rceil>))" by simp
next
  fix a :: real and e :: int
  assume h: "0 < a \<and> a < 1"
  define y where "y = 1 / a"
  have y: "1 < y" using h by (simp add: y_def)
  then have c: "2 \<le> \<lceil>y\<rceil>" by linarith
  have "y / 10 \<le> of_int \<lceil>y\<rceil> / 10" by (simp add: le_of_int_ceiling)
  also have "\<dots> \<le> of_int (\<lceil>y\<rceil> - 1)"
  proof -
    have "(2::real) \<le> of_int \<lceil>y\<rceil>" using c by linarith
    then have "real_of_int \<lceil>y\<rceil> / 10 \<le> real_of_int \<lceil>y\<rceil> - 1" by linarith
    then show ?thesis by simp
  qed
  finally have "\<lceil>y / 10\<rceil> \<le> \<lceil>y\<rceil> - 1" by (simp only: ceiling_le)
  then have "nat \<lceil>y / 10\<rceil> < nat \<lceil>y\<rceil>" using c by linarith
  then have "nat \<lceil>1 / a / 10\<rceil> < nat \<lceil>1 / a\<rceil>" unfolding y_def .
  moreover have "1 / (a * 10) = 1 / a / 10" by simp
  ultimately have "nat \<lceil>1 / (a * 10)\<rceil> < nat \<lceil>1 / a\<rceil>" by (simp only:)
  then show "((a * 10, e - 1), (a, e)) \<in> measure (\<lambda>(a, e). nat \<lceil>1 / a\<rceil>)"
    by (simp only: in_measure prod.case)
qed

declare scale_down.simps [simp del] scale_up.simps [simp del]

definition fmt_e :: "nat \<Rightarrow> real \<Rightarrow> string" where
  \<comment> \<open>\<^verbatim>\<open>{x:.pe}\<close>: one digit, \<open>p\<close> decimals, and an exponent of at least two digits.\<close>
  "fmt_e p x =
     (let a = \<bar>x\<bar>;
          (m, e) = (if a = 0 then (0, 0) else if 1 \<le> a then scale_down a 0 else scale_up a 0);
          n = nat (round_half_even (m * 10 ^ p));
          (n', e') = (if n = 10 ^ (p + 1) then (10 ^ p, e + 1) else (n, e))
      in (if x < 0 then ''-'' else []) @ fixed_digits p n' @ ''e''
         @ (if e' < 0 then ''-'' else ''+'') @ zfill 2 (dec_str (nat \<bar>e'\<bar>)))"

section \<open>The element types of the arrays\<close>

text \<open>
  \<^verbatim>\<open>arr_material\<close> holds \<^verbatim>\<open>int16\<close> values and \<^verbatim>\<open>arr_density\<close> holds \<^verbatim>\<open>float32\<close> values.
  What NumPy does with a Python integer outside the range of \<^verbatim>\<open>int16\<close> depends on its
  release: before 2.0 the integer is taken through a 64-bit C integer and its low 16 bits
  are kept (with a \<^verbatim>\<open>DeprecationWarning\<close> from 1.24 on), and an integer that does not fit
  the C integer raises \<^verbatim>\<open>OverflowError\<close>; from 2.0 on, every integer outside the range
  raises \<^verbatim>\<open>OverflowError\<close>.
\<close>

datatype numpy_release = NumPy_1 | NumPy_2

fun to_int16 :: "numpy_release \<Rightarrow> int \<Rightarrow> error + int" where
  "to_int16 NumPy_1 i =
     (if - (2 ^ 63) \<le> i \<and> i < 2 ^ 63 then Inr ((i + 32768) mod 65536 - 32768)
      else Inl OverflowError)"
| "to_int16 NumPy_2 i =
     (if - 32768 \<le> i \<and> i \<le> 32767 then Inr i else Inl OverflowError)"

text \<open>
  A \<^verbatim>\<open>float32\<close> value is a sign and a magnitude, or an infinity with its sign:
  \<open>Finite negative a\<close> stands for \<open>a\<close> or \<open>- a\<close>, where \<open>a\<close> is not negative, and
  \<open>Finite True 0\<close> is the negative zero. A Python float is converted to the nearest
  \<^verbatim>\<open>float32\<close> value, a tie going to the even significand: for a magnitude in the binade
  \<open>2 ^ e \<le> a < 2 ^ (e + 1)\<close> the values are \<open>2 ^ (e - 23)\<close> apart, and below \<open>2 ^ - 126\<close> they
  are \<open>2 ^ - 149\<close> apart; a magnitude that rounds to \<open>2 ^ 128\<close> or more becomes an infinity.
  The Python float is given by the real number it stands for; an organ list whose density
  column holds NaN or an infinity is outside this model.
\<close>

datatype float32 = Finite bool real | Infinite bool

function binade_down :: "real \<Rightarrow> int \<Rightarrow> int" where
  "binade_down a e = (if 2 \<le> a then binade_down (a / 2) (e + 1) else e)"
  by pat_completeness auto
termination
proof (relation "measure (\<lambda>(a, e). nat \<lceil>a\<rceil>)")
  show "wf (measure (\<lambda>(a::real, e::int). nat \<lceil>a\<rceil>))" by simp
next
  fix a :: real and e :: int
  assume "2 \<le> a"
  then have "\<lceil>a / 2\<rceil> < \<lceil>a\<rceil>" by linarith
  moreover have "0 < \<lceil>a\<rceil>" using \<open>2 \<le> a\<close> by linarith
  ultimately show "((a / 2, e + 1), (a, e)) \<in> measure (\<lambda>(a, e). nat \<lceil>a\<rceil>)" by simp
qed

function binade_up :: "real \<Rightarrow> int \<Rightarrow> int" where
  "binade_up a e = (if 0 < a \<and> a < 1 then binade_up (a * 2) (e - 1) else e)"
  by pat_completeness auto
termination
proof (relation "measure (\<lambda>(a, e). nat \<lceil>1 / a\<rceil>)")
  show "wf (measure (\<lambda>(a::real, e::int). nat \<lceil>1 / a\<rceil>))" by simp
next
  fix a :: real and e :: int
  assume h: "0 < a \<and> a < 1"
  define y where "y = 1 / a"
  have y: "1 < y" using h by (simp add: y_def)
  then have c: "2 \<le> \<lceil>y\<rceil>" by linarith
  have "y / 2 \<le> of_int \<lceil>y\<rceil> / 2" by (simp add: le_of_int_ceiling)
  also have "\<dots> \<le> of_int (\<lceil>y\<rceil> - 1)"
  proof -
    have "(2::real) \<le> of_int \<lceil>y\<rceil>" using c by linarith
    then have "real_of_int \<lceil>y\<rceil> / 2 \<le> real_of_int \<lceil>y\<rceil> - 1" by linarith
    then show ?thesis by simp
  qed
  finally have "\<lceil>y / 2\<rceil> \<le> \<lceil>y\<rceil> - 1" by (simp only: ceiling_le)
  then have "nat \<lceil>y / 2\<rceil> < nat \<lceil>y\<rceil>" using c by linarith
  then have "nat \<lceil>1 / a / 2\<rceil> < nat \<lceil>1 / a\<rceil>" unfolding y_def .
  moreover have "1 / (a * 2) = 1 / a / 2" by simp
  ultimately have "nat \<lceil>1 / (a * 2)\<rceil> < nat \<lceil>1 / a\<rceil>" by (simp only:)
  then show "((a * 2, e - 1), (a, e)) \<in> measure (\<lambda>(a, e). nat \<lceil>1 / a\<rceil>)"
    by (simp only: in_measure prod.case)
qed

declare binade_down.simps [simp del] binade_up.simps [simp del]

definition pow2 :: "int \<Rightarrow> real" where
  "pow2 k = (if 0 \<le> k then 2 ^ nat k else 1 / 2 ^ nat (- k))"

definition float32_magnitude :: "real \<Rightarrow> real option" where
  \<comment> \<open>The magnitude \<open>a\<close>, not negative, rounded to \<^verbatim>\<open>float32\<close>; \<open>None\<close> is the overflow.\<close>
  "float32_magnitude a =
     (if a = 0 then Some 0
      else
        (let e = (if 1 \<le> a then binade_down a 0 else binade_up a 0);
             quantum = pow2 (max e (- 126) - 23);
             r = of_int (round_half_even (a / quantum)) * quantum
         in if 2 ^ 128 \<le> r then None else Some r))"

definition float32_of :: "real \<Rightarrow> float32" where
  \<comment> \<open>The conversion of a Python float on assignment to an element of \<^verbatim>\<open>arr_density\<close>.\<close>
  "float32_of x =
     (case float32_magnitude \<bar>x\<bar> of
        None \<Rightarrow> Infinite (x < 0)
      | Some r \<Rightarrow> Finite (x < 0) r)"

fun float32_negative :: "float32 \<Rightarrow> bool" where
  \<comment> \<open>\<^verbatim>\<open>d < 0\<close>; the negative zero is not less than 0.\<close>
  "float32_negative (Finite negative a) \<longleftrightarrow> negative \<and> 0 < a"
| "float32_negative (Infinite negative) \<longleftrightarrow> negative"

fun float32_abs :: "float32 \<Rightarrow> float32" where
  \<comment> \<open>\<^verbatim>\<open>np.abs\<close>\<close>
  "float32_abs (Finite negative a) = Finite False a"
| "float32_abs (Infinite negative) = Infinite False"

fun fmt_f_float32 :: "nat \<Rightarrow> nat \<Rightarrow> float32 \<Rightarrow> string" where
  \<comment> \<open>\<^verbatim>\<open>%w.pf\<close> of a \<^verbatim>\<open>float32\<close> value: its exact value is formatted.\<close>
  "fmt_f_float32 w p (Finite negative a) =
     rjust w ((if negative then ''-'' else []) @ fmt_f 0 p a)"
| "fmt_f_float32 w p (Infinite negative) = rjust w ((if negative then ''-'' else []) @ ''inf'')"

fun fmt_e_float32 :: "nat \<Rightarrow> float32 \<Rightarrow> string" where
  \<comment> \<open>\<^verbatim>\<open>{d:.pe}\<close> of a \<^verbatim>\<open>float32\<close> value.\<close>
  "fmt_e_float32 p (Finite negative a) = (if negative then ''-'' else []) @ fmt_e p a"
| "fmt_e_float32 p (Infinite negative) = (if negative then ''-'' else []) @ ''inf''"

section \<open>The .vox file: \<^verbatim>\<open>create_vox_file\<close>\<close>

definition vox_header :: "int \<Rightarrow> int \<Rightarrow> int \<Rightarrow> real \<Rightarrow> real \<Rightarrow> real \<Rightarrow> string list" where
  "vox_header n_vox_x n_vox_y n_vox_z vox_res_x vox_res_y vox_res_z =
     [''[SECTION VOXELS HEADER v.2008-04-13]'',
      '' '' @ fmt_d 4 n_vox_x @ fmt_d 4 n_vox_y @ fmt_d 4 n_vox_z,
      '' '' @ fmt_f 7 5 vox_res_x @ '' '' @ fmt_f 7 5 vox_res_y @ '' '' @ fmt_f 7 5 vox_res_z,
      '' 1'',
      '' 2'',
      '' 0'',
      ''[END OF VXH SECTION]'']"

fun savetxt_row :: "int \<times> float32 \<Rightarrow> string" where
  \<comment> \<open>One row of \<^verbatim>\<open>np.savetxt\<close> with \<^verbatim>\<open>fmt = '%3d %7.4f'\<close>.\<close>
  "savetxt_row (m, d) = fmt_d 3 m @ '' '' @ fmt_f_float32 7 4 d"

declare savetxt_row.simps [simp del]

definition create_vox_file ::
  "string \<Rightarrow> int list \<Rightarrow> float32 list \<Rightarrow> int \<Rightarrow> int \<Rightarrow> int \<Rightarrow> real \<Rightarrow> real \<Rightarrow> real
   \<Rightarrow> file_system \<Rightarrow> outcome \<times> file_system" where
  \<comment> \<open>The header goes to \<open>vox_file\<close>; the rows are appended to the file named
      \<^verbatim>\<open>'phantom.vox'\<close> (line 94).\<close>
  "create_vox_file vox_file arr_material arr_density n_vox_x n_vox_y n_vox_z
       vox_res_x vox_res_y vox_res_z fs =
     (let fs1 = write_lines vox_file
                  (vox_header n_vox_x n_vox_y n_vox_z vox_res_x vox_res_y vox_res_z)
                  (open_w vox_file fs)
      in if length arr_material \<noteq> length arr_density
         then (Raised ValueError_column_stack, fs1)
         else (Completed,
               write_lines ''phantom.vox'' (map savetxt_row (zip arr_material arr_density)) fs1))"

section \<open>The projection files: \<^verbatim>\<open>create_ct_den_mat_file\<close>\<close>

definition ct_header :: "int \<Rightarrow> int \<Rightarrow> int \<Rightarrow> real \<Rightarrow> real \<Rightarrow> real \<Rightarrow> string list" where
  "ct_header n_vox_x n_vox_y n_vox_z len_x len_y len_z =
     [''#  CT structure (GNUPLOT format).'',
      ''#  CT enclosure limits:  XL = '' @ fmt_e 6 0 @ '' cm,  XU = '' @ fmt_e 6 len_x @ '' cm'',
      ''#                       YL = '' @ fmt_e 6 0 @ '' cm,  YU = '' @ fmt_e 6 len_y @ '' cm'',
      ''#                       ZL = '' @ fmt_e 6 0 @ '' cm,  ZU = '' @ fmt_e 6 len_z @ '' cm'',
      ''#  Numbers of voxels:    NVX = '' @ fmt_d 0 n_vox_x @ '', NVY = '' @ fmt_d 0 n_vox_y
         @ '', NVZ = '' @ fmt_d 0 n_vox_z,
      ''#'',
      ''#'',
      ''#  columns 1 to 3: bin indices IX, IY and IZ'',
      ''#  4th column: density (g/cm**3).'',
      ''#  5th column: material. 6th column: organ ID'',
      ''#  CT structure (GNUPLOT format).'']"

definition ct_line :: "int \<Rightarrow> int \<Rightarrow> int \<Rightarrow> float32 \<Rightarrow> int \<Rightarrow> int \<Rightarrow> string" where
  \<comment> \<open>The f-string of line 287, without its newline.\<close>
  "ct_line x y z den mat org =
     '' '' @ fmt_d 3 (x + 1) @ '' '' @ fmt_d 3 (y + 1) @ '' '' @ fmt_d 3 (z + 1)
     @ '' '' @ rjust 7 (fmt_e_float32 5 den) @ '' '' @ fmt_d 4 mat @ '' '' @ fmt_d 4 org"

fun ct_voxel ::
  "float32 list \<Rightarrow> int list \<Rightarrow> int list \<Rightarrow> int \<Rightarrow> int \<Rightarrow> int \<times> int \<times> int \<Rightarrow> error + string list" where
  \<comment> \<open>The body of the innermost loop (lines 285 and 287) at \<open>(x, y, z)\<close>.\<close>
  "ct_voxel arr_density arr_material arr_organ n_vox_x n_vox_y (x, y, z) =
     (let counter = x + n_vox_x * (y + n_vox_y * z)
      in (case py_getitem arr_density counter of Inl e \<Rightarrow> Inl e | Inr den \<Rightarrow>
          (case py_getitem arr_material counter of Inl e \<Rightarrow> Inl e | Inr mat \<Rightarrow>
           (case py_getitem arr_organ counter of Inl e \<Rightarrow> Inl e | Inr org \<Rightarrow>
              Inr [ct_line x y z den mat org]))))"

declare ct_voxel.simps [simp del]

fun for_each :: "('a \<Rightarrow> error + string list) \<Rightarrow> 'a list \<Rightarrow> error + string list" where
  \<comment> \<open>A \<^verbatim>\<open>for\<close> loop whose body appends to \<^verbatim>\<open>lines\<close>; an exception ends it.\<close>
  "for_each body [] = Inr []"
| "for_each body (i # rest) =
     (case body i of Inl e \<Rightarrow> Inl e
      | Inr ls \<Rightarrow> (case for_each body rest of Inl e \<Rightarrow> Inl e | Inr ls' \<Rightarrow> Inr (ls @ ls')))"

fun then_append :: "error + string list \<Rightarrow> string list \<Rightarrow> error + string list" where
  \<comment> \<open>\<^verbatim>\<open>lines.append\<close> after a loop, reached only when the loop raised nothing.\<close>
  "then_append (Inl e) ls = Inl e"
| "then_append (Inr ls0) ls = Inr (ls0 @ ls)"

fun ct_lines ::
  "float32 list \<Rightarrow> int list \<Rightarrow> int list \<Rightarrow> int \<Rightarrow> int \<Rightarrow> (int \<Rightarrow> int \<Rightarrow> int \<Rightarrow> int \<times> int \<times> int)
   \<Rightarrow> int \<times> int \<times> int \<Rightarrow> error + string list" where
  \<comment> \<open>The three nested loops of lines 279 to 293.\<close>
  "ct_lines arr_density arr_material arr_organ n_vox_x n_vox_y order_indices (l0, l1, l2) =
       (for_each (\<lambda>i_loop.
          then_append
            (for_each (\<lambda>j_loop.
               then_append
                 (for_each (\<lambda>k_loop.
                    ct_voxel arr_density arr_material arr_organ n_vox_x n_vox_y
                      (order_indices i_loop j_loop k_loop))
                  (py_range l2))
                 ['' ''])
             (py_range l1))
            ['' ''])
        (py_range l0))"

declare ct_lines.simps [simp del]

definition create_ct_den_mat_file ::
  "string \<Rightarrow> float32 list \<Rightarrow> int list \<Rightarrow> int list \<Rightarrow> int \<Rightarrow> int \<Rightarrow> int \<Rightarrow> real \<Rightarrow> real \<Rightarrow> real
   \<Rightarrow> (int \<Rightarrow> int \<Rightarrow> int \<Rightarrow> int \<times> int \<times> int) \<Rightarrow> int \<times> int \<times> int
   \<Rightarrow> file_system \<Rightarrow> outcome \<times> file_system" where
  \<comment> \<open>The module-level function (line 214), the one \<^verbatim>\<open>readPhantom\<close> calls.\<close>
  "create_ct_den_mat_file file_name arr_density arr_material arr_organ n_vox_x n_vox_y n_vox_z
       len_x len_y len_z order_indices loop_order fs =
     (let fs1 = write_lines file_name (ct_header n_vox_x n_vox_y n_vox_z len_x len_y len_z)
                  (open_w file_name fs)
      in case ct_lines arr_density arr_material arr_organ n_vox_x n_vox_y order_indices loop_order of
           Inl e \<Rightarrow> (Raised e, fs1)
         | Inr lines \<Rightarrow> (Completed, write_lines file_name lines fs1))"

definition order_indices_xy :: "int \<Rightarrow> int \<Rightarrow> int \<Rightarrow> int \<times> int \<times> int" where
  "order_indices_xy z y x = (x, y, z)"

definition order_indices_xz :: "int \<Rightarrow> int \<Rightarrow> int \<Rightarrow> int \<times> int \<times> int" where
  "order_indices_xz y x z = (x, y, z)"

definition order_indices_yz :: "int \<Rightarrow> int \<Rightarrow> int \<Rightarrow> int \<times> int \<times> int" where
  "order_indices_yz x z y = (x, y, z)"

text \<open>
  The three calls of lines 566 to 581: for each projection, the lambda \<^verbatim>\<open>order_indices\<close>
  and the tuple \<^verbatim>\<open>loop_order\<close> that \<^verbatim>\<open>readPhantom\<close> passes.
\<close>

datatype projection = XY | XZ | YZ

fun order_indices_of :: "projection \<Rightarrow> int \<Rightarrow> int \<Rightarrow> int \<Rightarrow> int \<times> int \<times> int" where
  "order_indices_of XY = order_indices_xy"
| "order_indices_of XZ = order_indices_xz"
| "order_indices_of YZ = order_indices_yz"

fun loop_order_of :: "projection \<Rightarrow> int \<Rightarrow> int \<Rightarrow> int \<Rightarrow> int \<times> int \<times> int" where
  "loop_order_of XY n_vox_x n_vox_y n_vox_z = (n_vox_z, n_vox_y, n_vox_x)"
| "loop_order_of XZ n_vox_x n_vox_y n_vox_z = (n_vox_y, n_vox_x, n_vox_z)"
| "loop_order_of YZ n_vox_x n_vox_y n_vox_z = (n_vox_x, n_vox_z, n_vox_y)"

section \<open>The three arrays and the assignment pass\<close>

text \<open>
  \<^verbatim>\<open>arr_organ\<close>, \<^verbatim>\<open>arr_material\<close> and \<^verbatim>\<open>arr_density\<close> are three separate NumPy arrays;
  \<^verbatim>\<open>arr_material\<close> is created with \<^verbatim>\<open>dtype=np.int16\<close> (line 460) and \<^verbatim>\<open>arr_density\<close> with
  \<^verbatim>\<open>dtype=np.float32\<close> (line 461). A row of the organ list is the triple (organ ID,
  material ID, density) that \<^verbatim>\<open>getattr\<close> reads with the three column names: a Python
  integer, a Python integer and a Python float. The assignments of lines 542 and 543
  convert the material ID to \<^verbatim>\<open>int16\<close> and the density to \<^verbatim>\<open>float32\<close>; the value is
  converted before the indices are used, so that a material ID that is refused raises even
  when no voxel carries the organ ID of its row.
\<close>

record fields =
  organ_field :: "int list"
  material_field :: "int list"
  density_field :: "float32 list"

type_synonym organ_row = "int \<times> int \<times> real"

definition np_where_eq :: "int list \<Rightarrow> int \<Rightarrow> nat list" where
  \<comment> \<open>\<^verbatim>\<open>np.where(arr == v)\<close>\<close>
  "np_where_eq arr v = filter (\<lambda>i. arr ! i = v) [0..<length arr]"

definition np_setitem :: "'a list \<Rightarrow> nat list \<Rightarrow> 'a \<Rightarrow> error + 'a list" where
  \<comment> \<open>\<^verbatim>\<open>arr[indices] = v\<close>; an index outside the array raises.\<close>
  "np_setitem arr indices v =
     (if list_all (\<lambda>i. i < length arr) indices
      then Inr (fold (\<lambda>i a. a[i := v]) indices arr)
      else Inl IndexError)"

fun assign_row :: "numpy_release \<Rightarrow> organ_row \<Rightarrow> fields \<Rightarrow> error + fields" where
  \<comment> \<open>The body of the loop of lines 540 to 543.\<close>
  "assign_row numpy (organ_id, material_id, density) st =
     (let organ_indices = np_where_eq (organ_field st) organ_id
      in (case to_int16 numpy material_id of
            Inl e \<Rightarrow> Inl e
          | Inr material \<Rightarrow>
              (case np_setitem (material_field st) organ_indices material of
                 Inl e \<Rightarrow> Inl e
               | Inr arr_material \<Rightarrow>
                   (case np_setitem (density_field st) organ_indices (float32_of density) of
                      Inl e \<Rightarrow> Inl e
                    | Inr arr_density \<Rightarrow>
                        Inr (st\<lparr>material_field := arr_material,
                                density_field := arr_density\<rparr>)))))"

declare assign_row.simps [simp del]

fun assign_rows :: "numpy_release \<Rightarrow> organ_row list \<Rightarrow> fields \<Rightarrow> error + fields" where
  "assign_rows numpy [] st = Inr st"
| "assign_rows numpy (row # rows) st =
     (case assign_row numpy row st of Inl e \<Rightarrow> Inl e | Inr st' \<Rightarrow> assign_rows numpy rows st')"

section \<open>The main program: \<^verbatim>\<open>readPhantom\<close>\<close>

text \<open>
  What the prompts and the two input files deliver. \<open>in_phantom\<close> is \<open>None\<close> when the
  phantom file does not exist and otherwise the organ IDs decoded from it; \<open>in_organlist\<close>
  is \<open>None\<close> when \<^verbatim>\<open>pd.read_fwf\<close> raises \<^verbatim>\<open>FileNotFoundError\<close> and otherwise the rows of the
  table. \<open>in_continue\<close> is the answer y. \<open>in_vox_file\<close> and \<open>in_ct_den_mat_files\<close> are the
  stripped answers, before the defaults are applied. \<open>in_numpy\<close> is the release of NumPy
  that the program is run with.
\<close>

record inputs =
  in_phantom :: "int list option"
  in_n_vox_x :: int
  in_n_vox_y :: int
  in_n_vox_z :: int
  in_vox_res_x :: real
  in_vox_res_y :: real
  in_vox_res_z :: real
  in_material_num :: int
  in_continue :: bool
  in_organlist :: "organ_row list option"
  in_vox_file :: string
  in_ct_den_mat_files :: "string list"
  in_numpy :: numpy_release

definition readPhantom_fields :: "inputs \<Rightarrow> outcome + fields" where
  \<comment> \<open>Lines 337 to 548: everything before the first output file is opened.\<close>
  "readPhantom_fields inp =
     (case in_phantom inp of
        None \<Rightarrow> Inl Returned
      | Some phantom_values \<Rightarrow>
          (let n_vox_tot = in_n_vox_x inp * in_n_vox_y inp * in_n_vox_z inp
           in if in_material_num inp \<le> 1 then Inl (Raised ValueError_materials)
              else if \<not> in_continue inp then Inl (Raised SystemExit_request)
              else
                (case in_organlist inp of
                   None \<Rightarrow> Inl Returned
                 | Some organlist_df \<Rightarrow>
                     (if n_vox_tot < 0 then Inl (Raised ValueError_negative_dimensions)
                      else
                        (let arr_material = replicate (nat n_vox_tot) (0::int);
                             arr_density0 = replicate (nat n_vox_tot) (Finite False 0);
                             arr_organ = phantom_values
                         in if int (length arr_organ) \<noteq> n_vox_tot
                            then Inl (Raised (ValueError_voxel_count
                                                (int (length arr_organ)) n_vox_tot))
                            else
                              (let arr_density =
                                     (if list_ex float32_negative arr_density0
                                      then map float32_abs arr_density0 else arr_density0)
                               in (case assign_rows (in_numpy inp) organlist_df
                                          \<lparr>organ_field = arr_organ,
                                           material_field = arr_material,
                                           density_field = arr_density\<rparr> of
                                     Inl e \<Rightarrow> Inl (Raised e)
                                   | Inr st \<Rightarrow>
                                       (if material_field st = []
                                        then Inl (Raised ValueError_zero_size)
                                        else Inr st))))))))"

definition ct_file_name :: "string list \<Rightarrow> int \<Rightarrow> (string \<Rightarrow> file_system \<Rightarrow> outcome \<times> file_system)
   \<Rightarrow> file_system \<Rightarrow> outcome \<times> file_system" where
  \<comment> \<open>\<^verbatim>\<open>ct_den_mat_files[i]\<close> is evaluated when the call is made.\<close>
  "ct_file_name ct_den_mat_files i call fs =
     (case py_getitem ct_den_mat_files i of Inl e \<Rightarrow> (Raised e, fs) | Inr name \<Rightarrow> call name fs)"

definition readPhantom :: "inputs \<Rightarrow> file_system \<Rightarrow> outcome \<times> file_system" where
  "readPhantom inp fs =
     (case readPhantom_fields inp of
        Inl stop \<Rightarrow> (stop, fs)
      | Inr st \<Rightarrow>
          let n_vox_x = in_n_vox_x inp; n_vox_y = in_n_vox_y inp; n_vox_z = in_n_vox_z inp;
              vox_res_x = in_vox_res_x inp; vox_res_y = in_vox_res_y inp;
              vox_res_z = in_vox_res_z inp;
              len_x = vox_res_x * of_int n_vox_x;
              len_y = vox_res_y * of_int n_vox_y;
              len_z = vox_res_z * of_int n_vox_z;
              vox_file = (if in_vox_file inp = [] then ''phantom.vox'' else in_vox_file inp);
              ct_den_mat_files =
                (if in_ct_den_mat_files inp = [] \<or> list_ex (\<lambda>header. header = []) (in_ct_den_mat_files inp)
                 then [''ct-den-matXY.dat'', ''ct-den-matXZ.dat'', ''ct-den-matYZ.dat'']
                 else in_ct_den_mat_files inp);
              arr_organ = organ_field st; arr_material = material_field st;
              arr_density = density_field st
          in then_do
               (then_do
                 (then_do
                   (create_vox_file vox_file arr_material arr_density n_vox_x n_vox_y n_vox_z
                      vox_res_x vox_res_y vox_res_z fs)
                   (ct_file_name ct_den_mat_files 0 (\<lambda>name.
                      create_ct_den_mat_file name arr_density arr_material arr_organ
                        n_vox_x n_vox_y n_vox_z len_x len_y len_z
                        (order_indices_of XY) (loop_order_of XY n_vox_x n_vox_y n_vox_z))))
                 (ct_file_name ct_den_mat_files 1 (\<lambda>name.
                    create_ct_den_mat_file name arr_density arr_material arr_organ
                      n_vox_x n_vox_y n_vox_z len_x len_y len_z
                      (order_indices_of XZ) (loop_order_of XZ n_vox_x n_vox_y n_vox_z))))
               (ct_file_name ct_den_mat_files 2 (\<lambda>name.
                  create_ct_den_mat_file name arr_density arr_material arr_organ
                    n_vox_x n_vox_y n_vox_z len_x len_y len_z
                    (order_indices_of YZ) (loop_order_of YZ n_vox_x n_vox_y n_vox_z))))"

section \<open>The lookup table of the specification, and the inputs of the examples\<close>

text \<open>
  The organ lookup table as the specification describes it: a mapping from organ tag to
  (material ID, density), built from the rows in order, a later row for the same tag
  replacing an earlier one.
\<close>

fun spec_table_insert :: "organ_row \<Rightarrow> (int \<Rightarrow> (int \<times> real) option) \<Rightarrow> (int \<Rightarrow> (int \<times> real) option)" where
  "spec_table_insert (organ_id, material_id, density) t = t(organ_id \<mapsto> (material_id, density))"

definition spec_lookup_table :: "organ_row list \<Rightarrow> int \<Rightarrow> (int \<times> real) option" where
  "spec_lookup_table rows = fold spec_table_insert rows Map.empty"

fun row_storable :: "numpy_release \<Rightarrow> organ_row \<Rightarrow> bool" where
  \<comment> \<open>The material ID of the row is one that the release converts to \<^verbatim>\<open>int16\<close>.\<close>
  "row_storable numpy (organ_id, material_id, density) =
     (case to_int16 numpy material_id of Inl e \<Rightarrow> False | Inr material \<Rightarrow> True)"

definition aligned :: "fields \<Rightarrow> bool" where
  "aligned st \<longleftrightarrow> length (material_field st) = length (organ_field st)
                 \<and> length (density_field st) = length (organ_field st)"

definition round_trip_inputs :: inputs where
  "round_trip_inputs =
     \<lparr>in_phantom = Some [7, 9], in_n_vox_x = 2, in_n_vox_y = 1, in_n_vox_z = 1,
      in_vox_res_x = 1, in_vox_res_y = 1, in_vox_res_z = 1, in_material_num = 2,
      in_continue = True, in_organlist = Some [(7, 3, 2), (7, 4, 5)],
      in_vox_file = ''phantom.vox'', in_ct_den_mat_files = [[]],
      in_numpy = NumPy_2\<rparr>"

definition inexact_density_inputs :: inputs where
  "inexact_density_inputs =
     \<lparr>in_phantom = Some [1], in_n_vox_x = 1, in_n_vox_y = 1, in_n_vox_z = 1,
      in_vox_res_x = 1, in_vox_res_y = 1, in_vox_res_z = 1, in_material_num = 2,
      in_continue = True, in_organlist = Some [(1, 1, 105 / 100)],
      in_vox_file = ''phantom.vox'', in_ct_den_mat_files = [[]],
      in_numpy = NumPy_2\<rparr>"

definition large_material_inputs :: "numpy_release \<Rightarrow> inputs" where
  "large_material_inputs numpy =
     \<lparr>in_phantom = Some [1], in_n_vox_x = 1, in_n_vox_y = 1, in_n_vox_z = 1,
      in_vox_res_x = 1, in_vox_res_y = 1, in_vox_res_z = 1, in_material_num = 2,
      in_continue = True, in_organlist = Some [(1, 40000, 1)],
      in_vox_file = ''phantom.vox'', in_ct_den_mat_files = [[]],
      in_numpy = numpy\<rparr>"

definition negative_density_inputs :: inputs where
  "negative_density_inputs =
     \<lparr>in_phantom = Some [1], in_n_vox_x = 1, in_n_vox_y = 1, in_n_vox_z = 1,
      in_vox_res_x = 1, in_vox_res_y = 1, in_vox_res_z = 1, in_material_num = 2,
      in_continue = True, in_organlist = Some [(1, 1, - 1)],
      in_vox_file = ''phantom.vox'', in_ct_den_mat_files = [[]],
      in_numpy = NumPy_2\<rparr>"

definition seven_of_eight_inputs :: inputs where
  "seven_of_eight_inputs =
     \<lparr>in_phantom = Some [1, 1, 2, 2, 3, 3, 4], in_n_vox_x = 2, in_n_vox_y = 2, in_n_vox_z = 2,
      in_vox_res_x = 1, in_vox_res_y = 1, in_vox_res_z = 1, in_material_num = 5,
      in_continue = True, in_organlist = Some [(1, 1, 1), (2, 2, 2), (3, 3, 3), (4, 4, 4)],
      in_vox_file = ''phantom.vox'', in_ct_den_mat_files = [[]],
      in_numpy = NumPy_2\<rparr>"

definition one_material_inputs :: inputs where
  "one_material_inputs =
     \<lparr>in_phantom = Some [1], in_n_vox_x = 1, in_n_vox_y = 1, in_n_vox_z = 1,
      in_vox_res_x = 1, in_vox_res_y = 1, in_vox_res_z = 1, in_material_num = 1,
      in_continue = True, in_organlist = Some [(1, 1, 1)],
      in_vox_file = ''phantom.vox'', in_ct_den_mat_files = [[]],
      in_numpy = NumPy_2\<rparr>"

definition no_voxel_inputs :: inputs where
  "no_voxel_inputs =
     \<lparr>in_phantom = Some [], in_n_vox_x = 0, in_n_vox_y = 1, in_n_vox_z = 1,
      in_vox_res_x = 1, in_vox_res_y = 1, in_vox_res_z = 1, in_material_num = 2,
      in_continue = True, in_organlist = Some [(1, 1, 1)],
      in_vox_file = ''phantom.vox'', in_ct_den_mat_files = [[]],
      in_numpy = NumPy_2\<rparr>"

text \<open>
  The axis table of the specification: for each projection the extents of the outer, middle
  and inner loop, and the voxel (x, y, z) that the three loop counters name; the voxels in
  the order in which the table spec_visits them; the linear index \<open>x + nx * (y + ny * z)\<close>;
  and the layout of the lines: a row scan is the lines of the inner loop and one separator,
  an outer block is the row scans of the middle loop and one more separator.
\<close>

fun spec_axis_extents :: "projection \<Rightarrow> int \<Rightarrow> int \<Rightarrow> int \<Rightarrow> int \<times> int \<times> int" where
  "spec_axis_extents XY nx ny nz = (nz, ny, nx)"
| "spec_axis_extents XZ nx ny nz = (ny, nx, nz)"
| "spec_axis_extents YZ nx ny nz = (nx, nz, ny)"

fun spec_axis_voxel :: "projection \<Rightarrow> int \<Rightarrow> int \<Rightarrow> int \<Rightarrow> int \<times> int \<times> int" where
  "spec_axis_voxel XY outer middle inner = (inner, middle, outer)"
| "spec_axis_voxel XZ outer middle inner = (middle, outer, inner)"
| "spec_axis_voxel YZ outer middle inner = (outer, inner, middle)"

fun spec_nested_visits ::
  "(int \<Rightarrow> int \<Rightarrow> int \<Rightarrow> int \<times> int \<times> int) \<Rightarrow> int \<times> int \<times> int \<Rightarrow> (int \<times> int \<times> int) list" where
  "spec_nested_visits voxel (n_outer, n_middle, n_inner) =
     concat (map (\<lambda>outer. concat (map (\<lambda>middle. map (\<lambda>inner. voxel outer middle inner)
                                                   (py_range n_inner))
                                    (py_range n_middle)))
                 (py_range n_outer))"

definition spec_visits :: "projection \<Rightarrow> int \<Rightarrow> int \<Rightarrow> int \<Rightarrow> (int \<times> int \<times> int) list" where
  "spec_visits p nx ny nz = spec_nested_visits (spec_axis_voxel p) (spec_axis_extents p nx ny nz)"

fun spec_linear_index :: "int \<Rightarrow> int \<Rightarrow> int \<times> int \<times> int \<Rightarrow> int" where
  "spec_linear_index nx ny (x, y, z) = x + nx * (y + ny * z)"

fun in_grid :: "int \<Rightarrow> int \<Rightarrow> int \<Rightarrow> int \<times> int \<times> int \<Rightarrow> bool" where
  "in_grid nx ny nz (x, y, z) \<longleftrightarrow> 0 \<le> x \<and> x < nx \<and> 0 \<le> y \<and> y < ny \<and> 0 \<le> z \<and> z < nz"

fun voxel_line :: "float32 list \<Rightarrow> int list \<Rightarrow> int list \<Rightarrow> int \<Rightarrow> int \<Rightarrow> int \<times> int \<times> int \<Rightarrow> string" where
  "voxel_line den mat org nx ny (x, y, z) =
     ct_line x y z (den ! nat (spec_linear_index nx ny (x, y, z)))
       (mat ! nat (spec_linear_index nx ny (x, y, z))) (org ! nat (spec_linear_index nx ny (x, y, z)))"

definition blank_line :: "string \<Rightarrow> bool" where
  "blank_line l \<longleftrightarrow> list_all (\<lambda>c. c = CHR '' '') l"

definition data_lines :: "string list \<Rightarrow> string list" where
  "data_lines ls = filter (\<lambda>l. \<not> blank_line l) ls"

definition spec_row_scan ::
  "(int \<times> int \<times> int \<Rightarrow> string) \<Rightarrow> (int \<Rightarrow> int \<Rightarrow> int \<Rightarrow> int \<times> int \<times> int) \<Rightarrow> int \<Rightarrow> int \<Rightarrow> int
   \<Rightarrow> string list" where
  "spec_row_scan line voxel n_inner outer =
     (\<lambda>middle. map (\<lambda>inner. line (voxel outer middle inner)) (py_range n_inner) @ ['' ''])"

definition spec_outer_block ::
  "(int \<times> int \<times> int \<Rightarrow> string) \<Rightarrow> (int \<Rightarrow> int \<Rightarrow> int \<Rightarrow> int \<times> int \<times> int) \<Rightarrow> int \<Rightarrow> int \<Rightarrow> int
   \<Rightarrow> string list" where
  "spec_outer_block line voxel n_middle n_inner =
     (\<lambda>outer. concat (map (spec_row_scan line voxel n_inner outer) (py_range n_middle)) @ ['' ''])"

fun spec_lines ::
  "(int \<times> int \<times> int \<Rightarrow> string) \<Rightarrow> (int \<Rightarrow> int \<Rightarrow> int \<Rightarrow> int \<times> int \<times> int) \<Rightarrow> int \<times> int \<times> int
   \<Rightarrow> string list" where
  "spec_lines line voxel (n_outer, n_middle, n_inner) =
     concat (map (spec_outer_block line voxel n_middle n_inner) (py_range n_outer))"

declare spec_lines.simps [simp del] spec_nested_visits.simps [simp del]

definition cube_inputs :: inputs where
  "cube_inputs =
     \<lparr>in_phantom = Some [1, 1, 2, 2, 3, 3, 4, 4], in_n_vox_x = 2, in_n_vox_y = 2, in_n_vox_z = 2,
      in_vox_res_x = 1, in_vox_res_y = 1, in_vox_res_z = 1, in_material_num = 5,
      in_continue = True, in_organlist = Some [(1, 1, 1), (2, 2, 2), (3, 3, 3), (4, 4, 4)],
      in_vox_file = [], in_ct_den_mat_files = [[]],
      in_numpy = NumPy_2\<rparr>"

definition vox_data_rows :: "file_system \<Rightarrow> string \<Rightarrow> string list option" where
  "vox_data_rows fs path = map_option (drop 7) (fs path)"

definition file_line :: "file_system \<Rightarrow> string \<Rightarrow> nat \<Rightarrow> string option" where
  "file_line fs path n =
     (case fs path of None \<Rightarrow> None | Some ls \<Rightarrow> if n < length ls then Some (ls ! n) else None)"

definition nonpositive_resolution_inputs :: inputs where
  "nonpositive_resolution_inputs =
     \<lparr>in_phantom = Some [1], in_n_vox_x = 1, in_n_vox_y = 1, in_n_vox_z = 1,
      in_vox_res_x = 0, in_vox_res_y = - 1, in_vox_res_z = 1, in_material_num = 2,
      in_continue = True, in_organlist = Some [(1, 1, 1)],
      in_vox_file = ''phantom.vox'', in_ct_den_mat_files = [[]],
      in_numpy = NumPy_2\<rparr>"

definition negative_dimension_inputs :: inputs where
  "negative_dimension_inputs =
     \<lparr>in_phantom = Some [1], in_n_vox_x = - 1, in_n_vox_y = - 1, in_n_vox_z = 1,
      in_vox_res_x = 1, in_vox_res_y = 1, in_vox_res_z = 1, in_material_num = 2,
      in_continue = True, in_organlist = Some [(1, 1, 1)],
      in_vox_file = ''phantom.vox'', in_ct_den_mat_files = [[]],
      in_numpy = NumPy_2\<rparr>"

section \<open>The assignment pass\<close>

lemma fold_list_update_nth:
  "\<forall>j\<in>set idxs. j < length arr \<Longrightarrow> i < length arr \<Longrightarrow>
   fold (\<lambda>j a. a[j := v]) idxs arr ! i = (if i \<in> set idxs then v else arr ! i)"
proof (induction idxs arbitrary: arr)
  case Nil
  then show ?case by simp
next
  case (Cons j idxs)
  have "fold (\<lambda>j a. a[j := v]) idxs (arr[j := v]) ! i
          = (if i \<in> set idxs then v else arr[j := v] ! i)"
    using Cons.prems by (intro Cons.IH) simp_all
  then show ?case using Cons.prems by (auto simp: nth_list_update)
qed

lemma fold_list_update_length: "length (fold (\<lambda>j a. a[j := v]) idxs arr) = length arr"
  by (induction idxs arbitrary: arr) simp_all

lemma np_setitem_where:
  assumes "length arr = length organ"
  shows "\<exists>arr'. np_setitem arr (np_where_eq organ tag) v = Inr arr'
           \<and> length arr' = length arr
           \<and> (\<forall>i<length arr. arr' ! i = (if organ ! i = tag then v else arr ! i))"
proof -
  have bound: "\<forall>j\<in>set (np_where_eq organ tag). j < length arr"
    using assms by (simp add: np_where_eq_def)
  have mem: "i \<in> set (np_where_eq organ tag) \<longleftrightarrow> organ ! i = tag" if "i < length arr" for i
    using that assms by (simp add: np_where_eq_def)
  have "np_setitem arr (np_where_eq organ tag) v
          = Inr (fold (\<lambda>j a. a[j := v]) (np_where_eq organ tag) arr)"
    using bound by (simp add: np_setitem_def list_all_iff)
  moreover have "\<forall>i<length arr. fold (\<lambda>j a. a[j := v]) (np_where_eq organ tag) arr ! i
                    = (if organ ! i = tag then v else arr ! i)"
    using fold_list_update_nth [OF bound] mem by simp
  ultimately show ?thesis by (simp add: fold_list_update_length)
qed

lemma to_int16_error: "to_int16 numpy i = Inl e \<Longrightarrow> e = OverflowError"
  by (cases numpy) (simp_all split: if_splits)

lemma to_int16_in_range: "- 32768 \<le> i \<Longrightarrow> i \<le> 32767 \<Longrightarrow> to_int16 numpy i = Inr i"
  by (cases numpy) simp_all

lemma assign_row_effect:
  assumes "aligned st" and "to_int16 numpy material_id = Inr material"
  shows "\<exists>st'. assign_row numpy (organ_id, material_id, density) st = Inr st'
           \<and> organ_field st' = organ_field st \<and> aligned st'
           \<and> (\<forall>i<length (organ_field st).
                 material_field st' ! i
                   = (if organ_field st ! i = organ_id then material else material_field st ! i)
               \<and> density_field st' ! i
                   = (if organ_field st ! i = organ_id then float32_of density
                      else density_field st ! i))"
proof -
  from assms(1) have lm: "length (material_field st) = length (organ_field st)"
    and ld: "length (density_field st) = length (organ_field st)"
    by (simp_all add: aligned_def)
  from np_setitem_where [OF lm, of organ_id material] obtain am where
    am: "np_setitem (material_field st) (np_where_eq (organ_field st) organ_id) material = Inr am"
        "length am = length (material_field st)"
        "\<forall>i<length (material_field st). am ! i
            = (if organ_field st ! i = organ_id then material else material_field st ! i)"
    by blast
  from np_setitem_where [OF ld, of organ_id "float32_of density"] obtain ad where
    ad: "np_setitem (density_field st) (np_where_eq (organ_field st) organ_id) (float32_of density)
           = Inr ad"
        "length ad = length (density_field st)"
        "\<forall>i<length (density_field st). ad ! i
            = (if organ_field st ! i = organ_id then float32_of density else density_field st ! i)"
    by blast
  have "assign_row numpy (organ_id, material_id, density) st
          = Inr (st\<lparr>material_field := am, density_field := ad\<rparr>)"
    by (simp add: assign_row.simps assms(2) am(1) ad(1))
  then show ?thesis
    using am(2,3) ad(2,3) lm ld by (simp add: aligned_def)
qed

lemma assign_row_refused:
  assumes "to_int16 numpy material_id = Inl e"
  shows "assign_row numpy (organ_id, material_id, density) st = Inl OverflowError"
  using assms to_int16_error [OF assms] by (simp add: assign_row.simps)

lemma assign_row_organ:
  "assign_row numpy row st = Inr st' \<Longrightarrow> organ_field st' = organ_field st"
  by (cases row) (auto simp: assign_row.simps Let_def split: sum.splits)

lemma assign_rows_organ:
  "assign_rows numpy rows st = Inr st' \<Longrightarrow> organ_field st' = organ_field st"
proof (induction rows arbitrary: st)
  case Nil
  then show ?case by simp
next
  case (Cons row rows)
  then show ?case
    by (auto split: sum.splits dest: assign_row_organ)
qed

lemma table_insert_apply:
  "spec_table_insert row t tag
     = (case spec_table_insert row Map.empty tag of Some p \<Rightarrow> Some p | None \<Rightarrow> t tag)"
  by (cases row) simp

lemma fold_table_insert_later:
  "fold spec_table_insert rows t tag
     = (case fold spec_table_insert rows Map.empty tag of Some p \<Rightarrow> Some p | None \<Rightarrow> t tag)"
proof (induction rows arbitrary: t)
  case Nil
  then show ?case by simp
next
  case (Cons row rows)
  have a: "fold spec_table_insert (row # rows) t tag
             = (case fold spec_table_insert rows Map.empty tag of
                  Some p \<Rightarrow> Some p | None \<Rightarrow> spec_table_insert row t tag)"
    using Cons.IH [of "spec_table_insert row t"] by simp
  have b: "fold spec_table_insert (row # rows) Map.empty tag
             = (case fold spec_table_insert rows Map.empty tag of
                  Some p \<Rightarrow> Some p | None \<Rightarrow> spec_table_insert row Map.empty tag)"
    using Cons.IH [of "spec_table_insert row Map.empty"] by simp
  show ?case
  proof (cases "fold spec_table_insert rows Map.empty tag")
    case None
    then show ?thesis
      unfolding a b using table_insert_apply [of row t tag] by simp
  next
    case (Some p)
    then show ?thesis unfolding a b by simp
  qed
qed

lemma organ_lookup_table_Cons:
  "spec_lookup_table ((organ_id, material_id, density) # rows) tag
     = (case spec_lookup_table rows tag of
          Some p \<Rightarrow> Some p
        | None \<Rightarrow> if tag = organ_id then Some (material_id, density) else None)"
proof -
  have "spec_lookup_table ((organ_id, material_id, density) # rows) tag
          = fold spec_table_insert rows (spec_table_insert (organ_id, material_id, density) Map.empty) tag"
    by (simp add: spec_lookup_table_def)
  also have "\<dots> = (case fold spec_table_insert rows Map.empty tag of
                       Some p \<Rightarrow> Some p
                     | None \<Rightarrow> spec_table_insert (organ_id, material_id, density) Map.empty tag)"
    by (rule fold_table_insert_later)
  also have "spec_table_insert (organ_id, material_id, density) Map.empty tag
               = (if tag = organ_id then Some (material_id, density) else None)"
    by simp
  finally show ?thesis by (simp add: spec_lookup_table_def)
qed

lemma assign_rows_effect:
  assumes "aligned st" and "assign_rows numpy rows st = Inr st'"
  shows "organ_field st' = organ_field st \<and> aligned st'
           \<and> (\<forall>i<length (organ_field st).
                 (case spec_lookup_table rows (organ_field st ! i) of
                    Some (m, d) \<Rightarrow> to_int16 numpy m = Inr (material_field st' ! i)
                                  \<and> density_field st' ! i = float32_of d
                  | None \<Rightarrow> material_field st' ! i = material_field st ! i
                            \<and> density_field st' ! i = density_field st ! i))"
  using assms
proof (induction rows arbitrary: st)
  case Nil
  then show ?case by (simp add: spec_lookup_table_def)
next
  case (Cons row rows)
  obtain organ_id material_id density where row: "row = (organ_id, material_id, density)"
    by (cases row)
  from Cons.prems(2) obtain st1 where
    s1: "assign_row numpy row st = Inr st1" and s2: "assign_rows numpy rows st1 = Inr st'"
    by (auto split: sum.splits)
  obtain material where material: "to_int16 numpy material_id = Inr material"
    using s1 assign_row_refused [of numpy material_id _ organ_id density st] unfolding row
    by (cases "to_int16 numpy material_id") simp_all
  from assign_row_effect [OF Cons.prems(1) material, of organ_id density] s1
  have st1: "organ_field st1 = organ_field st" "aligned st1"
      "\<forall>i<length (organ_field st).
          material_field st1 ! i
            = (if organ_field st ! i = organ_id then material else material_field st ! i)
        \<and> density_field st1 ! i
            = (if organ_field st ! i = organ_id then float32_of density
               else density_field st ! i)"
    unfolding row by auto
  from Cons.IH [OF st1(2) s2] have
    st': "organ_field st' = organ_field st1" "aligned st'"
      "\<forall>i<length (organ_field st1).
          (case spec_lookup_table rows (organ_field st1 ! i) of
             Some (m, d) \<Rightarrow> to_int16 numpy m = Inr (material_field st' ! i)
                           \<and> density_field st' ! i = float32_of d
           | None \<Rightarrow> material_field st' ! i = material_field st1 ! i
                     \<and> density_field st' ! i = density_field st1 ! i)"
    by simp_all
  have "\<forall>i<length (organ_field st).
          (case spec_lookup_table (row # rows) (organ_field st ! i) of
             Some (m, d) \<Rightarrow> to_int16 numpy m = Inr (material_field st' ! i)
                           \<and> density_field st' ! i = float32_of d
           | None \<Rightarrow> material_field st' ! i = material_field st ! i
                     \<and> density_field st' ! i = density_field st ! i)"
  proof (intro allI impI)
    fix i assume i: "i < length (organ_field st)"
    from st'(3) i st1(1) have a:
      "case spec_lookup_table rows (organ_field st ! i) of
         Some (m, d) \<Rightarrow> to_int16 numpy m = Inr (material_field st' ! i)
                       \<and> density_field st' ! i = float32_of d
       | None \<Rightarrow> material_field st' ! i = material_field st1 ! i
                 \<and> density_field st' ! i = density_field st1 ! i"
      by simp
    from st1(3) i have b:
      "material_field st1 ! i
         = (if organ_field st ! i = organ_id then material else material_field st ! i)"
      "density_field st1 ! i
         = (if organ_field st ! i = organ_id then float32_of density else density_field st ! i)"
      by simp_all
    show "case spec_lookup_table (row # rows) (organ_field st ! i) of
            Some (m, d) \<Rightarrow> to_int16 numpy m = Inr (material_field st' ! i)
                          \<and> density_field st' ! i = float32_of d
          | None \<Rightarrow> material_field st' ! i = material_field st ! i
                    \<and> density_field st' ! i = density_field st ! i"
      using a b material unfolding row organ_lookup_table_Cons
      by (auto split: option.splits)
  qed
  then show ?case
    using st1(1) st'(1,2) by simp
qed

lemma assign_rows_completes:
  assumes "aligned st" and "list_all (row_storable numpy) rows"
  shows "\<exists>st'. assign_rows numpy rows st = Inr st'"
  using assms
proof (induction rows arbitrary: st)
  case Nil
  then show ?case by simp
next
  case (Cons row rows)
  obtain organ_id material_id density where row: "row = (organ_id, material_id, density)"
    by (cases row)
  from Cons.prems(2) obtain material where material: "to_int16 numpy material_id = Inr material"
    unfolding row by (cases "to_int16 numpy material_id") simp_all
  from assign_row_effect [OF Cons.prems(1) material, of organ_id density] obtain st1 where
    st1: "assign_row numpy row st = Inr st1" "aligned st1"
    unfolding row by blast
  from Cons.prems(2) have "list_all (row_storable numpy) rows" by simp
  from Cons.IH [OF st1(2) this] show ?case by (simp add: st1(1))
qed

lemma assign_rows_refused:
  assumes "aligned st" and "\<not> list_all (row_storable numpy) rows"
  shows "assign_rows numpy rows st = Inl OverflowError"
  using assms
proof (induction rows arbitrary: st)
  case Nil
  then show ?case by simp
next
  case (Cons row rows)
  obtain organ_id material_id density where row: "row = (organ_id, material_id, density)"
    by (cases row)
  show ?case
  proof (cases "to_int16 numpy material_id")
    case (Inl e)
    then show ?thesis unfolding row by (simp add: assign_row_refused)
  next
    case (Inr material)
    from assign_row_effect [OF Cons.prems(1) Inr, of organ_id density] obtain st1 where
      st1: "assign_row numpy row st = Inr st1" "aligned st1"
      unfolding row by blast
    from Cons.prems(2) Inr have "\<not> list_all (row_storable numpy) rows"
      unfolding row by simp
    from Cons.IH [OF st1(2) this] show ?thesis by (simp add: st1(1))
  qed
qed

section \<open>The field construction of a run\<close>

lemma replicate_no_negative: "\<not> list_ex float32_negative (replicate n (Finite False 0))"
  by (simp add: list_ex_iff)

lemma readPhantom_fields_assign:
  assumes "in_phantom inp = Some arr_organ" and "in_organlist inp = Some rows"
    and "1 < in_material_num inp" and "in_continue inp"
    and "int (length arr_organ) = in_n_vox_x inp * in_n_vox_y inp * in_n_vox_z inp"
    and "arr_organ \<noteq> []"
  shows "readPhantom_fields inp
           = (case assign_rows (in_numpy inp) rows
                     \<lparr>organ_field = arr_organ,
                      material_field = replicate (length arr_organ) 0,
                      density_field = replicate (length arr_organ) (Finite False 0)\<rparr> of
                Inl e \<Rightarrow> Inl (Raised e)
              | Inr st \<Rightarrow> Inr st)"
proof -
  define st0 where "st0 = \<lparr>organ_field = arr_organ,
                            material_field = replicate (length arr_organ) (0::int),
                            density_field = replicate (length arr_organ) (Finite False 0)\<rparr>"
  have al: "aligned st0" by (simp add: aligned_def st0_def)
  have tot: "nat (in_n_vox_x inp * in_n_vox_y inp * in_n_vox_z inp) = length arr_organ"
    by (simp flip: assms(5))
  have run: "readPhantom_fields inp
               = (case assign_rows (in_numpy inp) rows st0 of
                    Inl e \<Rightarrow> Inl (Raised e)
                  | Inr st \<Rightarrow> if material_field st = [] then Inl (Raised ValueError_zero_size)
                              else Inr st)"
    using assms(1-4)
    by (simp add: readPhantom_fields_def Let_def tot replicate_no_negative st0_def
             flip: assms(5))
  show ?thesis
  proof (cases "assign_rows (in_numpy inp) rows st0")
    case (Inl e)
    then show ?thesis unfolding run by (simp add: st0_def)
  next
    case (Inr st)
    from assign_rows_effect [OF al Inr] assms(6) have "material_field st \<noteq> []"
      by (auto simp: aligned_def st0_def)
    with Inr show ?thesis unfolding run by (simp add: st0_def)
  qed
qed

lemma readPhantom_fields_build:
  assumes "in_phantom inp = Some arr_organ" and "in_organlist inp = Some rows"
    and "1 < in_material_num inp" and "in_continue inp"
    and "int (length arr_organ) = in_n_vox_x inp * in_n_vox_y inp * in_n_vox_z inp"
    and "arr_organ \<noteq> []"
    and "readPhantom_fields inp = Inr st"
  shows "organ_field st = arr_organ \<and> aligned st
           \<and> (\<forall>i<length arr_organ.
                 (case spec_lookup_table rows (arr_organ ! i) of
                    Some (m, d) \<Rightarrow> to_int16 (in_numpy inp) m = Inr (material_field st ! i)
                                  \<and> density_field st ! i = float32_of d
                  | None \<Rightarrow> material_field st ! i = 0 \<and> density_field st ! i = Finite False 0))"
proof -
  define st0 where "st0 = \<lparr>organ_field = arr_organ,
                            material_field = replicate (length arr_organ) (0::int),
                            density_field = replicate (length arr_organ) (Finite False 0)\<rparr>"
  have al: "aligned st0" by (simp add: aligned_def st0_def)
  have pass: "assign_rows (in_numpy inp) rows st0 = Inr st"
    using assms(7) unfolding readPhantom_fields_assign [OF assms(1-6)] st0_def
    by (simp split: sum.splits)
  from assign_rows_effect [OF al pass] have
    st: "organ_field st = organ_field st0" "aligned st"
      "\<forall>i<length (organ_field st0).
          (case spec_lookup_table rows (organ_field st0 ! i) of
             Some (m, d) \<Rightarrow> to_int16 (in_numpy inp) m = Inr (material_field st ! i)
                           \<and> density_field st ! i = float32_of d
           | None \<Rightarrow> material_field st ! i = material_field st0 ! i
                     \<and> density_field st ! i = density_field st0 ! i)"
    by simp_all
  have "\<forall>i<length arr_organ.
          (case spec_lookup_table rows (arr_organ ! i) of
             Some (m, d) \<Rightarrow> to_int16 (in_numpy inp) m = Inr (material_field st ! i)
                           \<and> density_field st ! i = float32_of d
           | None \<Rightarrow> material_field st ! i = 0 \<and> density_field st ! i = Finite False 0)"
  proof (intro allI impI)
    fix i assume i: "i < length arr_organ"
    with st(3) have
      "case spec_lookup_table rows (arr_organ ! i) of
         Some (m, d) \<Rightarrow> to_int16 (in_numpy inp) m = Inr (material_field st ! i)
                       \<and> density_field st ! i = float32_of d
       | None \<Rightarrow> material_field st ! i = material_field st0 ! i
                 \<and> density_field st ! i = density_field st0 ! i"
      by (simp add: st0_def)
    moreover have "material_field st0 ! i = 0" "density_field st0 ! i = Finite False 0"
      using i by (simp_all add: st0_def)
    ultimately show "case spec_lookup_table rows (arr_organ ! i) of
         Some (m, d) \<Rightarrow> to_int16 (in_numpy inp) m = Inr (material_field st ! i)
                       \<and> density_field st ! i = float32_of d
       | None \<Rightarrow> material_field st ! i = 0 \<and> density_field st ! i = Finite False 0"
      by (auto split: option.splits)
  qed
  with st(1,2) show ?thesis by (simp add: st0_def)
qed

lemma readPhantom_fields_completes:
  assumes "in_phantom inp = Some arr_organ" and "in_organlist inp = Some rows"
    and "1 < in_material_num inp" and "in_continue inp"
    and "int (length arr_organ) = in_n_vox_x inp * in_n_vox_y inp * in_n_vox_z inp"
    and "arr_organ \<noteq> []"
  shows "list_all (row_storable (in_numpy inp)) rows \<Longrightarrow> \<exists>st. readPhantom_fields inp = Inr st"
    and "\<not> list_all (row_storable (in_numpy inp)) rows
           \<Longrightarrow> readPhantom_fields inp = Inl (Raised OverflowError)"
proof -
  define st0 where "st0 = \<lparr>organ_field = arr_organ,
                            material_field = replicate (length arr_organ) (0::int),
                            density_field = replicate (length arr_organ) (Finite False 0)\<rparr>"
  have al: "aligned st0" by (simp add: aligned_def st0_def)
  show "\<exists>st. readPhantom_fields inp = Inr st"
    if "list_all (row_storable (in_numpy inp)) rows"
    using assign_rows_completes [OF al that]
    unfolding readPhantom_fields_assign [OF assms] st0_def by auto
  show "readPhantom_fields inp = Inl (Raised OverflowError)"
    if "\<not> list_all (row_storable (in_numpy inp)) rows"
    using assign_rows_refused [OF al that]
    unfolding readPhantom_fields_assign [OF assms] st0_def by simp
qed

lemma readPhantom_fields_not_Completed: "readPhantom_fields inp \<noteq> Inl Completed"
  by (simp add: readPhantom_fields_def Let_def split: option.splits sum.splits)

lemma readPhantom_stopped:
  "readPhantom_fields inp = Inl stop \<Longrightarrow> readPhantom inp fs = (stop, fs)"
  by (simp add: readPhantom_def)

lemma readPhantom_fields_mismatch:
  assumes "in_phantom inp = Some arr_organ"
    and "int (length arr_organ) \<noteq> in_n_vox_x inp * in_n_vox_y inp * in_n_vox_z inp"
  shows "\<exists>stop. readPhantom_fields inp = Inl stop"
  using assms
  by (simp add: readPhantom_fields_def Let_def split: option.splits)

lemma readPhantom_fields_mismatch_reached:
  assumes "in_phantom inp = Some arr_organ"
    and "int (length arr_organ) \<noteq> in_n_vox_x inp * in_n_vox_y inp * in_n_vox_z inp"
    and "1 < in_material_num inp" and "in_continue inp" and "in_organlist inp = Some rows"
    and "0 \<le> in_n_vox_x inp * in_n_vox_y inp * in_n_vox_z inp"
  shows "readPhantom_fields inp
           = Inl (Raised (ValueError_voxel_count (int (length arr_organ))
                            (in_n_vox_x inp * in_n_vox_y inp * in_n_vox_z inp)))"
  using assms
  by (simp add: readPhantom_fields_def Let_def)

lemma readPhantom_fields_materials:
  assumes "in_material_num inp \<le> 1"
  shows "readPhantom_fields inp
           = (case in_phantom inp of None \<Rightarrow> Inl Returned
              | Some arr_organ \<Rightarrow> Inl (Raised ValueError_materials))"
  using assms
  by (simp add: readPhantom_fields_def Let_def split: option.splits)

lemma assign_rows_empty:
  assumes "assign_rows numpy rows \<lparr>organ_field = [], material_field = [], density_field = []\<rparr>
             = Inr st"
  shows "material_field st = []"
proof -
  have "aligned \<lparr>organ_field = [], material_field = [], density_field = []\<rparr>"
    by (simp add: aligned_def)
  from assign_rows_effect [OF this assms] show ?thesis
    by (auto simp: aligned_def)
qed

lemma readPhantom_fields_lengths:
  assumes "readPhantom_fields inp = Inr st"
  shows "aligned st"
    and "length (organ_field st) = nat (in_n_vox_x inp * in_n_vox_y inp * in_n_vox_z inp)"
proof -
  define n_vox_tot where "n_vox_tot = in_n_vox_x inp * in_n_vox_y inp * in_n_vox_z inp"
  from assms obtain arr_organ rows where
    a: "int (length arr_organ) = n_vox_tot"
       "assign_rows (in_numpy inp) rows
          \<lparr>organ_field = arr_organ, material_field = replicate (nat n_vox_tot) 0,
            density_field = replicate (nat n_vox_tot) (Finite False 0)\<rparr> = Inr st"
    unfolding readPhantom_fields_def Let_def n_vox_tot_def
    by (auto simp: replicate_no_negative split: option.splits if_splits sum.splits)
  have al: "aligned \<lparr>organ_field = arr_organ, material_field = replicate (nat n_vox_tot) (0::int),
                      density_field = replicate (nat n_vox_tot) (Finite False 0)\<rparr>"
    using a(1) by (simp add: aligned_def flip: a(1))
  from assign_rows_effect [OF al a(2)]
  have e: "organ_field st = arr_organ" "aligned st" by auto
  show "aligned st" by (rule e(2))
  show "length (organ_field st) = nat (in_n_vox_x inp * in_n_vox_y inp * in_n_vox_z inp)"
    using a(1) e(1) by (simp add: n_vox_tot_def flip: a(1))
qed

lemma readPhantom_fields_no_voxels:
  assumes "in_n_vox_x inp * in_n_vox_y inp * in_n_vox_z inp \<le> 0"
  shows "\<exists>stop. readPhantom_fields inp = Inl stop"
proof (cases "in_n_vox_x inp * in_n_vox_y inp * in_n_vox_z inp < 0")
  case True
  then show ?thesis
    by (simp add: readPhantom_fields_def Let_def split: option.splits)
next
  case False
  with assms have z: "in_n_vox_x inp * in_n_vox_y inp * in_n_vox_z inp = 0" by simp
  show ?thesis
    by (auto simp: readPhantom_fields_def Let_def z list_ex_iff
             split: option.splits sum.splits dest: assign_rows_empty)
qed

section \<open>The loops of the projection writer\<close>

lemma py_range_mem: "i \<in> set (py_range n) \<longleftrightarrow> 0 \<le> i \<and> i < n"
  by (auto simp: py_range_def image_iff intro: bexI [of _ "nat i"])

lemma py_range_snoc: "0 < n \<Longrightarrow> py_range n = py_range (n - 1) @ [n - 1]"
proof -
  assume n: "0 < n"
  then have "nat n = Suc (nat (n - 1))" by simp
  then show ?thesis using n by (simp add: py_range_def)
qed

lemma for_each_Inr:
  assumes "\<And>x. x \<in> set xs \<Longrightarrow> body x = Inr (g x)"
  shows "for_each body xs = Inr (concat (map g xs))"
  using assms by (induction xs) simp_all

lemma for_each_all:
  assumes "for_each body xs = Inr ls"
    and "\<And>x ls'. x \<in> set xs \<Longrightarrow> body x = Inr ls' \<Longrightarrow> \<forall>l\<in>set ls'. P l"
  shows "\<forall>l\<in>set ls. P l"
  using assms
proof (induction xs arbitrary: ls)
  case Nil
  then show ?case by simp
next
  case (Cons x xs)
  from Cons.prems(1) obtain l1 l2 where
    s: "body x = Inr l1" "for_each body xs = Inr l2" "ls = l1 @ l2"
    by (auto split: sum.splits)
  have "\<forall>l\<in>set l1. P l" using Cons.prems(2) [of x l1] s(1) by simp
  moreover have "\<forall>l\<in>set l2. P l"
  proof (rule Cons.IH [OF s(2)])
    fix y ls' assume "y \<in> set xs" "body y = Inr ls'"
    then show "\<forall>l\<in>set ls'. P l" using Cons.prems(2) [of y ls'] by simp
  qed
  ultimately show ?case using s(3) by auto
qed

lemma then_append_Inr:
  "then_append r ls = Inr out \<Longrightarrow> \<exists>ls0. r = Inr ls0 \<and> out = ls0 @ ls"
  by (cases r) simp_all

lemma linear_index_bounds:
  assumes "in_grid nx ny nz (x, y, z)"
  shows "0 \<le> spec_linear_index nx ny (x, y, z)" and "spec_linear_index nx ny (x, y, z) < nx * ny * nz"
proof -
  from assms have g: "0 \<le> x" "x < nx" "0 \<le> y" "y < ny" "0 \<le> z" "z < nz" by simp_all
  have "0 \<le> ny * z" using g by simp
  then have "0 \<le> nx * (y + ny * z)" using g by simp
  then show "0 \<le> spec_linear_index nx ny (x, y, z)" using g by simp
  have "ny * z \<le> ny * (nz - 1)" using g by (intro mult_left_mono) simp_all
  then have a: "y + ny * z \<le> ny * nz - 1" using g by (simp add: right_diff_distrib)
  have "nx * (y + ny * z) \<le> nx * (ny * nz - 1)" using a g by (intro mult_left_mono) simp_all
  then have "x + nx * (y + ny * z) \<le> nx * ny * nz - 1"
    using g by (simp add: right_diff_distrib mult.assoc)
  then show "spec_linear_index nx ny (x, y, z) < nx * ny * nz" by simp
qed

lemma py_getitem_nat:
  "0 \<le> i \<Longrightarrow> i < int (length xs) \<Longrightarrow> py_getitem xs i = Inr (xs ! nat i)"
  by (simp add: py_getitem_def)

lemma ct_voxel_ok:
  assumes "in_grid nx ny nz v"
    and "length den = nat (nx * ny * nz)" and "length mat = nat (nx * ny * nz)"
    and "length org = nat (nx * ny * nz)"
  shows "ct_voxel den mat org nx ny v = Inr [voxel_line den mat org nx ny v]"
proof -
  obtain x y z where v: "v = (x, y, z)" by (cases v)
  have b: "0 \<le> spec_linear_index nx ny (x, y, z)" "spec_linear_index nx ny (x, y, z) < nx * ny * nz"
    using linear_index_bounds [of nx ny nz x y z] assms(1) v by simp_all
  then have i: "0 \<le> x + nx * (y + ny * z)" "x + nx * (y + ny * z) < int (nat (nx * ny * nz))"
    by simp_all
  have "py_getitem den (x + nx * (y + ny * z)) = Inr (den ! nat (x + nx * (y + ny * z)))"
    using i by (intro py_getitem_nat) (simp_all only: assms(2))
  moreover have "py_getitem mat (x + nx * (y + ny * z)) = Inr (mat ! nat (x + nx * (y + ny * z)))"
    using i by (intro py_getitem_nat) (simp_all only: assms(3))
  moreover have "py_getitem org (x + nx * (y + ny * z)) = Inr (org ! nat (x + nx * (y + ny * z)))"
    using i by (intro py_getitem_nat) (simp_all only: assms(4))
  ultimately show ?thesis
    unfolding v by (simp add: ct_voxel.simps Let_def)
qed

lemma ct_lines_ok:
  assumes "length den = nat (nx * ny * nz)" and "length mat = nat (nx * ny * nz)"
    and "length org = nat (nx * ny * nz)"
    and grid: "\<And>i j k. i \<in> set (py_range l0) \<Longrightarrow> j \<in> set (py_range l1) \<Longrightarrow> k \<in> set (py_range l2)
                 \<Longrightarrow> in_grid nx ny nz (order_indices i j k)"
  shows "ct_lines den mat org nx ny order_indices (l0, l1, l2)
           = Inr (spec_lines (voxel_line den mat org nx ny) order_indices (l0, l1, l2))"
proof -
  have inner: "for_each (\<lambda>k. ct_voxel den mat org nx ny (order_indices i j k)) (py_range l2)
                 = Inr (map (\<lambda>k. voxel_line den mat org nx ny (order_indices i j k)) (py_range l2))"
    if "i \<in> set (py_range l0)" "j \<in> set (py_range l1)" for i j
  proof -
    have "for_each (\<lambda>k. ct_voxel den mat org nx ny (order_indices i j k)) (py_range l2)
            = Inr (concat (map (\<lambda>k. [voxel_line den mat org nx ny (order_indices i j k)])
                               (py_range l2)))"
      by (rule for_each_Inr) (simp add: ct_voxel_ok [OF grid [OF that] assms(1-3)])
    then show ?thesis by (simp add: concat_map_singleton)
  qed
  have middle: "for_each (\<lambda>j. then_append
                    (for_each (\<lambda>k. ct_voxel den mat org nx ny (order_indices i j k)) (py_range l2))
                    ['' '']) (py_range l1)
                 = Inr (concat (map (\<lambda>j. map (\<lambda>k. voxel_line den mat org nx ny (order_indices i j k))
                                             (py_range l2) @ ['' '']) (py_range l1)))"
    if "i \<in> set (py_range l0)" for i
    by (rule for_each_Inr) (simp add: inner [OF that])
  have "for_each (\<lambda>i. then_append
           (for_each (\<lambda>j. then_append
              (for_each (\<lambda>k. ct_voxel den mat org nx ny (order_indices i j k)) (py_range l2))
              ['' '']) (py_range l1))
           ['' '']) (py_range l0)
        = Inr (concat (map (\<lambda>i. concat (map (\<lambda>j. map (\<lambda>k. voxel_line den mat org nx ny
                                                              (order_indices i j k))
                                                    (py_range l2) @ ['' '']) (py_range l1))
                                  @ ['' '']) (py_range l0)))"
    by (rule for_each_Inr) (simp add: middle)
  then show ?thesis
    by (simp add: ct_lines.simps spec_lines.simps spec_outer_block_def spec_row_scan_def)
qed

lemma projection_in_grid:
  assumes "i \<in> set (py_range l0)" "j \<in> set (py_range l1)" "k \<in> set (py_range l2)"
    and "loop_order_of p nx ny nz = (l0, l1, l2)"
  shows "in_grid nx ny nz (order_indices_of p i j k)"
  using assms
  by (cases p)
     (auto simp: py_range_mem order_indices_xy_def order_indices_xz_def order_indices_yz_def)

lemma projection_table:
  "order_indices_of p = spec_axis_voxel p" "loop_order_of p nx ny nz = spec_axis_extents p nx ny nz"
  by (cases p; simp add: fun_eq_iff order_indices_xy_def order_indices_xz_def order_indices_yz_def)+

lemma create_ct_den_mat_file_ok:
  assumes "length den = nat (nx * ny * nz)" and "length mat = nat (nx * ny * nz)"
    and "length org = nat (nx * ny * nz)"
  shows "create_ct_den_mat_file name den mat org nx ny nz lx ly lz
             (order_indices_of p) (loop_order_of p nx ny nz) fs
           = (Completed,
              fs(name \<mapsto> ct_header nx ny nz lx ly lz
                          @ spec_lines (voxel_line den mat org nx ny) (order_indices_of p)
                              (loop_order_of p nx ny nz)))"
proof -
  obtain l0 l1 l2 where l: "loop_order_of p nx ny nz = (l0, l1, l2)"
    by (cases "loop_order_of p nx ny nz")
  have "ct_lines den mat org nx ny (order_indices_of p) (l0, l1, l2)
          = Inr (spec_lines (voxel_line den mat org nx ny) (order_indices_of p) (l0, l1, l2))"
    using assms by (rule ct_lines_ok) (rule projection_in_grid [OF _ _ _ l])
  then show ?thesis
    by (simp add: create_ct_den_mat_file_def l write_lines_def open_w_def)
qed

section \<open>Blank lines and data lines\<close>

lemma digit_char_not_space: "d < 10 \<Longrightarrow> digit_char d \<noteq> CHR '' ''"
  by (auto simp: digit_char_def less_Suc_eq eval_nat_numeral)

lemma dec_str_has_digit: "\<exists>d<10. digit_char d \<in> set (dec_str n)"
proof (cases "n < 10")
  case True
  then show ?thesis by (subst dec_str.simps) auto
next
  case False
  have "n mod 10 < 10" by simp
  moreover have "digit_char (n mod 10) \<in> set (dec_str n)"
    using False by (subst dec_str.simps) simp
  ultimately show ?thesis by blast
qed

lemma fmt_d_not_blank: "\<not> blank_line (fmt_d w i)"
proof -
  obtain d where d: "d < 10" "digit_char d \<in> set (dec_str (nat \<bar>i\<bar>))"
    using dec_str_has_digit by blast
  then have "digit_char d \<in> set (fmt_d w i)" by (simp add: fmt_d_def rjust_def)
  then show ?thesis
    using digit_char_not_space [OF d(1)] by (auto simp: blank_line_def list_all_iff)
qed

lemma ct_line_not_blank: "\<not> blank_line (ct_line x y z den mat org)"
  using fmt_d_not_blank [of 3 "x + 1"]
  by (simp add: ct_line_def blank_line_def)

lemma voxel_line_not_blank: "\<not> blank_line (voxel_line den mat org nx ny v)"
  by (cases v) (simp add: ct_line_not_blank)

lemma blank_separator: "blank_line '' ''"
  by (simp add: blank_line_def)

lemma ct_line_starts: "take (Suc 0) (ct_line x y z den mat org) = '' ''"
  by (simp add: ct_line_def)

lemma data_lines_nested:
  assumes "\<And>v. \<not> blank_line (line v)"
  shows "data_lines (spec_lines line voxel dims) = map line (spec_nested_visits voxel dims)"
proof -
  obtain l0 l1 l2 where dims: "dims = (l0, l1, l2)" by (cases dims)
  have row: "filter (\<lambda>l. \<not> blank_line l) (map (\<lambda>k. line (voxel i j k)) ks)
               = map (\<lambda>k. line (voxel i j k)) ks" for i j ks
    using assms by (induction ks) simp_all
  have block: "filter (\<lambda>l. \<not> blank_line l)
                 (concat (map (\<lambda>j. map (\<lambda>k. line (voxel i j k)) ks @ ['' '']) js))
               = map line (concat (map (\<lambda>j. map (\<lambda>k. voxel i j k) ks) js))" for i js ks
    by (induction js) (simp_all add: row blank_separator)
  have "filter (\<lambda>l. \<not> blank_line l)
          (concat (map (\<lambda>i. concat (map (\<lambda>j. map (\<lambda>k. line (voxel i j k)) ks @ ['' '']) js)
                            @ ['' '']) is))
        = map line (concat (map (\<lambda>i. concat (map (\<lambda>j. map (\<lambda>k. voxel i j k) ks) js)) is))"
    for "is" js ks
    by (induction "is") (simp_all add: block blank_separator)
  then show ?thesis
    by (simp add: data_lines_def dims spec_lines.simps spec_nested_visits.simps spec_outer_block_def
          spec_row_scan_def)
qed

lemma row_scan_shape:
  assumes "\<And>v. \<not> blank_line (line v)"
  shows "\<exists>scan. spec_row_scan line voxel n_inner outer middle = scan @ ['' '']
           \<and> length scan = nat n_inner \<and> (\<forall>l\<in>set scan. \<not> blank_line l)"
  using assms by (auto simp: spec_row_scan_def py_range_def)

lemma outer_block_end:
  assumes "0 < n_middle" and "0 < n_inner"
  shows "\<exists>front. spec_outer_block line voxel n_middle n_inner outer
           = front @ [line (voxel outer (n_middle - 1) (n_inner - 1)), '' '', '' '']"
  by (simp add: spec_outer_block_def spec_row_scan_def py_range_snoc [OF assms(1)]
        py_range_snoc [OF assms(2)])

lemma ct_voxel_Inr:
  "ct_voxel den mat org nx ny v = Inr ls \<Longrightarrow> \<forall>l\<in>set ls. take 1 l = '' ''"
  by (cases v) (auto simp: ct_voxel.simps Let_def ct_line_starts split: sum.splits)

lemma ct_lines_start_space:
  assumes "ct_lines den mat org nx ny order_indices loop_order = Inr ls"
  shows "\<forall>l\<in>set ls. take 1 l = '' ''"
proof -
  obtain l0 l1 l2 where lo: "loop_order = (l0, l1, l2)" by (cases loop_order)
  have inner: "\<forall>l\<in>set out. take 1 l = '' ''"
    if "for_each (\<lambda>k. ct_voxel den mat org nx ny (order_indices i j k)) ks = Inr out"
    for i j ks out
    using that by (rule for_each_all) (rule ct_voxel_Inr)
  have row: "\<forall>l\<in>set out. take 1 l = '' ''"
    if "then_append (for_each (\<lambda>k. ct_voxel den mat org nx ny (order_indices i j k)) ks)
          ['' ''] = Inr out"
    for i j ks out
    using then_append_Inr [OF that] inner by fastforce
  have middle: "\<forall>l\<in>set out. take 1 l = '' ''"
    if "for_each (\<lambda>j. then_append
            (for_each (\<lambda>k. ct_voxel den mat org nx ny (order_indices i j k)) ks) ['' '']) js
          = Inr out"
    for i js ks out
    using that by (rule for_each_all) (use row in blast)
  have block: "\<forall>l\<in>set out. take 1 l = '' ''"
    if "then_append (for_each (\<lambda>j. then_append
            (for_each (\<lambda>k. ct_voxel den mat org nx ny (order_indices i j k)) ks) ['' '']) js)
          ['' ''] = Inr out"
    for i js ks out
    using then_append_Inr [OF that] middle by fastforce
  have "for_each (\<lambda>i. then_append (for_each (\<lambda>j. then_append
            (for_each (\<lambda>k. ct_voxel den mat org nx ny (order_indices i j k)) (py_range l2))
            ['' '']) (py_range l1)) ['' '']) (py_range l0) = Inr ls"
    using assms by (simp add: lo ct_lines.simps)
  then show ?thesis by (rule for_each_all) (use block in blast)
qed

lemma ct_header_shape:
  "length (ct_header nx ny nz lx ly lz) = 11"
  "\<forall>h\<in>set (ct_header nx ny nz lx ly lz). take 1 h = ''#''"
  by (simp_all add: ct_header_def)

lemma create_ct_den_mat_file_layout:
  "\<exists>body. snd (create_ct_den_mat_file name den mat org nx ny nz lx ly lz order_indices
                   loop_order fs) name
             = Some (ct_header nx ny nz lx ly lz @ body)
          \<and> (\<forall>l\<in>set body. take 1 l = '' '')"
proof (cases "ct_lines den mat org nx ny order_indices loop_order")
  case (Inl e)
  then have "snd (create_ct_den_mat_file name den mat org nx ny nz lx ly lz order_indices
                    loop_order fs) name = Some (ct_header nx ny nz lx ly lz @ [])"
    by (simp add: create_ct_den_mat_file_def write_lines_def open_w_def)
  then show ?thesis by fastforce
next
  case (Inr ls)
  then have "snd (create_ct_den_mat_file name den mat org nx ny nz lx ly lz order_indices
                    loop_order fs) name = Some (ct_header nx ny nz lx ly lz @ ls)"
    by (simp add: create_ct_den_mat_file_def write_lines_def open_w_def)
  then show ?thesis using ct_lines_start_space [OF Inr] by blast
qed

section \<open>The order of the XY projection\<close>

lemma concat_map_grid:
  "concat (map (\<lambda>j. map (\<lambda>i. f i j) [0..<a]) [0..<b])
     = map (\<lambda>k. f (k mod a) (k div a)) [0..<a * b]"
proof (induction b)
  case 0
  then show ?case by simp
next
  case (Suc b)
  have "[0..<a * b + a] = [0..<a * b] @ [a * b..<a * b + a]"
    by (rule upt_add_eq_append) simp
  moreover have "map (\<lambda>i. i + a * b) [0..<a] = [a * b..<a + a * b]"
    by (rule map_add_upt)
  ultimately have split: "[0..<a * Suc b] = [0..<a * b] @ map (\<lambda>i. i + a * b) [0..<a]"
    by (simp only: mult_Suc_right add.commute [of a "a * b"])
  have "map (\<lambda>k. f (k mod a) (k div a)) (map (\<lambda>i. i + a * b) [0..<a])
          = map (\<lambda>i. f ((i + a * b) mod a) ((i + a * b) div a)) [0..<a]"
    by (simp only: map_map o_def)
  also have "\<dots> = map (\<lambda>i. f i b) [0..<a]"
  proof (rule map_cong [OF refl])
    fix i assume "i \<in> set [0..<a]"
    then have "i < a" by simp
    then show "f ((i + a * b) mod a) ((i + a * b) div a) = f i b" by simp
  qed
  finally have last: "map (\<lambda>k. f (k mod a) (k div a)) (map (\<lambda>i. i + a * b) [0..<a])
                        = map (\<lambda>i. f i b) [0..<a]" .
  have "concat (map (\<lambda>j. map (\<lambda>i. f i j) [0..<a]) [0..<Suc b])
          = concat (map (\<lambda>j. map (\<lambda>i. f i j) [0..<a]) [0..<b]) @ map (\<lambda>i. f i b) [0..<a]"
    by simp
  also have "\<dots> = map (\<lambda>k. f (k mod a) (k div a)) [0..<a * b]
                     @ map (\<lambda>k. f (k mod a) (k div a)) (map (\<lambda>i. i + a * b) [0..<a])"
    by (simp only: Suc.IH last)
  also have "\<dots> = map (\<lambda>k. f (k mod a) (k div a)) [0..<a * Suc b]"
    by (simp only: split map_append)
  finally show ?case .
qed

lemma visits_XY_nat:
  assumes "0 \<le> nx" "0 \<le> ny" "0 \<le> nz"
  shows "spec_visits XY nx ny nz
           = map (\<lambda>k. (int (k mod nat nx), int (k div nat nx mod nat ny),
                        int (k div (nat nx * nat ny))))
                 [0..<nat nx * nat ny * nat nz]"
proof -
  define a b c where "a = nat nx" and "b = nat ny" and "c = nat nz"
  have "spec_visits XY nx ny nz
          = concat (map (\<lambda>z. concat (map (\<lambda>y. map (\<lambda>x. (int x, int y, int z)) [0..<a]) [0..<b]))
                        [0..<c])"
    by (simp add: spec_visits_def spec_nested_visits.simps py_range_def o_def a_def b_def c_def)
  also have "\<dots> = concat (map (\<lambda>z. map (\<lambda>k. (int (k mod a), int (k div a), int z)) [0..<a * b])
                          [0..<c])"
    by (simp add: concat_map_grid [of "\<lambda>x y. (int x, int y, int z)" for z])
  also have "\<dots> = map (\<lambda>m. (int (m mod (a * b) mod a), int (m mod (a * b) div a), int (m div (a * b))))
                     [0..<a * b * c]"
    by (rule concat_map_grid [of "\<lambda>k z. (int (k mod a), int (k div a), int z)"])
  also have "\<dots> = map (\<lambda>m. (int (m mod a), int (m div a mod b), int (m div (a * b))))
                     [0..<a * b * c]"
  proof -
    have t: "m mod (a * b) div a = m div a mod b" for m
      by (cases "a = 0") (simp_all add: mod_mult2_eq)
    have u: "m mod (a * b) mod a = m mod a" for m
      by (simp add: mod_mod_cancel)
    show ?thesis by (simp only: t u)
  qed
  finally show ?thesis unfolding a_def b_def c_def .
qed

lemma nat_grid_index: "k mod a + a * (k div a mod b + b * (k div (a * b))) = (k::nat)"
  by (simp add: div_mult2_eq)

lemma visits_XY_linear:
  assumes "0 \<le> nx" "0 \<le> ny" "0 \<le> nz"
  shows "map (spec_linear_index nx ny) (spec_visits XY nx ny nz) = map int [0..<nat (nx * ny * nz)]"
proof -
  define a b c where "a = nat nx" and "b = nat ny" and "c = nat nz"
  have n: "nx = int a" "ny = int b" "nz = int c" using assms by (simp_all add: a_def b_def c_def)
  have "spec_linear_index nx ny (int (k mod a), int (k div a mod b), int (k div (a * b))) = int k" for k
  proof -
    have "spec_linear_index nx ny (int (k mod a), int (k div a mod b), int (k div (a * b)))
            = int (k mod a + a * (k div a mod b + b * (k div (a * b))))"
      by (simp add: n)
    then show ?thesis by (simp only: nat_grid_index)
  qed
  then have "map (spec_linear_index nx ny) (spec_visits XY nx ny nz) = map int [0..<a * b * c]"
    by (simp add: visits_XY_nat [OF assms] o_def flip: a_def b_def c_def)
  moreover have "nat (nx * ny * nz) = a * b * c"
    by (simp add: n nat_mult_distrib)
  ultimately show ?thesis by simp
qed

lemma visits_XY_first:
  assumes "2 \<le> nx" "2 \<le> ny" "2 \<le> nz"
  shows "spec_visits XY nx ny nz ! 0 = (0, 0, 0)" and "spec_visits XY nx ny nz ! 1 = (1, 0, 0)"
    and "spec_visits XY nx ny nz ! nat nx = (0, 1, 0)"
    and "spec_visits XY nx ny nz ! nat (nx * ny) = (0, 0, 1)"
    and "1 < nat nx" and "nat nx < nat (nx * ny)"
    and "nat (nx * ny) < length (spec_visits XY nx ny nz)"
proof -
  define a b c where "a = nat nx" and "b = nat ny" and "c = nat nz"
  have ge: "2 \<le> a" "2 \<le> b" "2 \<le> c" using assms by (simp_all add: a_def b_def c_def)
  have n: "nx = int a" "ny = int b" "nz = int c" using assms by (simp_all add: a_def b_def c_def)
  have v: "spec_visits XY nx ny nz
             = map (\<lambda>k. (int (k mod a), int (k div a mod b), int (k div (a * b))))
                   [0..<a * b * c]"
    using visits_XY_nat [of nx ny nz] assms by (simp add: a_def b_def c_def)
  have ab: "nat (nx * ny) = a * b" by (simp add: n nat_mult_distrib)
  have lt1: "a < a * b" using ge by simp
  have "a * b * 1 < a * b * c" using ge by (intro mult_strict_left_mono) simp_all
  then have lt2: "a * b < a * b * c" by simp
  have lt0: "1 < a * b" using ge lt1 by linarith
  show "spec_visits XY nx ny nz ! 0 = (0, 0, 0)" using lt2 by (simp add: v)
  show "spec_visits XY nx ny nz ! 1 = (1, 0, 0)"
  proof -
    have "1 < a * b * c" using lt0 lt2 by linarith
    then show ?thesis using ge lt0 by (simp add: v)
  qed
  show "spec_visits XY nx ny nz ! nat nx = (0, 1, 0)"
  proof -
    have "a < a * b * c" using lt1 lt2 by linarith
    moreover have "a div a = 1" using ge by simp
    moreover have "a div (a * b) = 0" using lt1 by simp
    ultimately show ?thesis using ge by (simp add: v flip: a_def)
  qed
  show "spec_visits XY nx ny nz ! nat (nx * ny) = (0, 0, 1)"
  proof -
    have "a * b div a = b" using ge by simp
    moreover have "a * b div (a * b) = 1" using ge lt0 by simp
    ultimately show ?thesis using lt2 by (simp add: v ab)
  qed
  show "1 < nat nx" using ge by (simp flip: a_def)
  show "nat nx < nat (nx * ny)" using lt1 by (simp add: ab flip: a_def)
  show "nat (nx * ny) < length (spec_visits XY nx ny nz)" using lt2 by (simp add: v ab)
qed

section \<open>Evaluation on concrete inputs\<close>

lemma upt_numeral_unfold:
  "[m..<numeral k] = (if m < numeral k then m # [Suc m..<numeral k] else [])"
  by (rule upt_rec)

lemma upt_Suc_0_unfold: "[m..<Suc 0] = (if m = 0 then [0] else [])"
  by (cases m) simp_all

lemma replicate_numeral_unfold: "replicate (numeral k) x = x # replicate (pred_numeral k) x"
  by (simp add: numeral_eq_Suc)

lemmas float32_eval = float32_of_def float32_magnitude_def pow2_def binade_down.simps
  binade_up.simps round_half_even_def Let_def

lemma float32_of_small:
  "float32_of 0 = Finite False 0" "float32_of 1 = Finite False 1"
  "float32_of 2 = Finite False 2" "float32_of 3 = Finite False 3"
  "float32_of 4 = Finite False 4" "float32_of 5 = Finite False 5"
  "float32_of (- 1) = Finite True 1"
  by (simp_all add: float32_eval)

lemma float32_of_inexact:
  "float32_of (105 / 100) = Finite False (4404019 / 4194304)"
  "float32_of (21 / 20) = Finite False (4404019 / 4194304)"
  by (simp_all add: float32_eval)

lemma float32_of_rounding:
  "float32_of 16777217 = Finite False 16777216"
  "float32_of 16777219 = Finite False 16777220"
  "float32_of (1 + 1 / 2 ^ 24) = Finite False 1"
  "float32_of (10 ^ 39) = Infinite False"
  "float32_of (- 1 / 10 ^ 50) = Finite True 0"
  by (simp_all add: float32_eval)

lemmas fields_eval = replicate_numeral_unfold readPhantom_fields_def assign_row.simps
  np_where_eq_def np_setitem_def aligned_def Let_def upt_numeral_unfold upt_Suc_0_unfold
  float32_of_small

lemma dec_str_small: "n < 10 \<Longrightarrow> dec_str n = [digit_char n]"
  by (simp add: dec_str.simps)

lemma dec_str_large: "\<not> n < 10 \<Longrightarrow> dec_str n = dec_str (n div 10) @ [digit_char (n mod 10)]"
  by (subst dec_str.simps) simp

lemmas fmt_eval = dec_str_small dec_str_large digit_char_def rjust_def zfill_def fmt_d_def
  replicate_numeral_unfold round_half_even_def fixed_digits_def fmt_f_def fmt_e_def
  scale_down.simps scale_up.simps Let_def

lemmas run_eval = readPhantom_def create_vox_file_def create_ct_den_mat_file_def ct_lines.simps
  ct_voxel.simps ct_file_name_def py_getitem_def py_range_def open_w_def write_lines_def
  order_indices_xy_def order_indices_xz_def order_indices_yz_def
  upt_numeral_unfold upt_Suc_0_unfold Let_def

lemmas ct_eval = create_ct_den_mat_file_def ct_lines.simps ct_voxel.simps py_getitem_def
  py_range_def open_w_def write_lines_def order_indices_xy_def order_indices_xz_def
  order_indices_yz_def upt_numeral_unfold upt_Suc_0_unfold Let_def

lemma vox_header_length:
  "length (vox_header n_vox_x n_vox_y n_vox_z vox_res_x vox_res_y vox_res_z) = 7"
  by (simp add: vox_header_def)

lemma vox_header_unit:
  "vox_header 1 1 1 1 1 1
     = [''[SECTION VOXELS HEADER v.2008-04-13]'', ''    1   1   1'',
        '' 1.00000 1.00000 1.00000'', '' 1'', '' 2'', '' 0'', ''[END OF VXH SECTION]'']"
  by (simp add: vox_header_def fmt_eval)

lemma savetxt_row_examples:
  "savetxt_row (1, Finite False 1) = ''  1  1.0000''"
  "savetxt_row (2, Finite False 2) = ''  2  2.0000''"
  "savetxt_row (3, Finite False 3) = ''  3  3.0000''"
  "savetxt_row (4, Finite False 4) = ''  4  4.0000''"
  by (simp_all add: savetxt_row.simps fmt_eval)

lemma ct_line_unit:
  "ct_line 0 0 0 (Finite False 1) 1 1 = ''   1   1   1 1.00000e+00    1    1''"
  by (simp add: ct_line_def fmt_eval)

lemma ct_header_unit:
  "ct_header 1 1 1 1 1 1
     = [''#  CT structure (GNUPLOT format).'',
        ''#  CT enclosure limits:  XL = 0.000000e+00 cm,  XU = 1.000000e+00 cm'',
        ''#                       YL = 0.000000e+00 cm,  YU = 1.000000e+00 cm'',
        ''#                       ZL = 0.000000e+00 cm,  ZU = 1.000000e+00 cm'',
        ''#  Numbers of voxels:    NVX = 1, NVY = 1, NVZ = 1'',
        ''#'',
        ''#'',
        ''#  columns 1 to 3: bin indices IX, IY and IZ'',
        ''#  4th column: density (g/cm**3).'',
        ''#  5th column: material. 6th column: organ ID'',
        ''#  CT structure (GNUPLOT format).'']"
  by (simp add: ct_header_def fmt_eval)

lemma unit_ct_file:
  "create_ct_den_mat_file ''ct-den-matXY.dat'' [Finite False 1] [1] [1] 1 1 1 1 1 1
       order_indices_xy (1, 1, 1) Map.empty
     = (Completed,
        [''ct-den-matXY.dat'' \<mapsto>
           ct_header 1 1 1 1 1 1 @ [ct_line 0 0 0 (Finite False 1) 1 1, '' '', '' '']])"
  by (simp add: ct_eval)

lemma cube_fields:
  "readPhantom_fields cube_inputs
     = Inr \<lparr>organ_field = [1, 1, 2, 2, 3, 3, 4, 4], material_field = [1, 1, 2, 2, 3, 3, 4, 4],
            density_field = [Finite False 1, Finite False 1, Finite False 2, Finite False 2,
                             Finite False 3, Finite False 3, Finite False 4, Finite False 4]\<rparr>"
  by (simp add: cube_inputs_def fields_eval)

lemma cube_vox_file:
  "snd (readPhantom cube_inputs Map.empty) ''phantom.vox''
     = Some (vox_header 2 2 2 1 1 1
             @ [''  1  1.0000'', ''  1  1.0000'', ''  2  2.0000'', ''  2  2.0000'',
                ''  3  3.0000'', ''  3  3.0000'', ''  4  4.0000'', ''  4  4.0000''])"
  unfolding readPhantom_def cube_fields
  by (simp add: run_eval cube_inputs_def savetxt_row_examples)

section \<open>The claims\<close>

text \<open>
  C1. The data lines of each projection file are the lines of the voxels in the order of
  the axis table, each with the array elements at the linear index x + nx * (y + ny * z);
  in the XY file the k-th voxel visited is the voxel of linear index k, so that
  (0,0,0), (1,0,0), (0,1,0) and (0,0,1) are visited in this order.
\<close>

theorem projection_order:
  assumes "0 < nx" and "0 < ny" and "0 < nz"
    and "length den = nat (nx * ny * nz)" and "length mat = nat (nx * ny * nz)"
    and "length org = nat (nx * ny * nz)"
  shows "(\<exists>body. create_ct_den_mat_file name den mat org nx ny nz lx ly lz
                    (order_indices_of p) (loop_order_of p nx ny nz) fs
                  = (Completed, fs(name \<mapsto> ct_header nx ny nz lx ly lz @ body))
                \<and> data_lines body = map (voxel_line den mat org nx ny) (spec_visits p nx ny nz))
         \<and> map (spec_linear_index nx ny) (spec_visits XY nx ny nz) = map int [0..<nat (nx * ny * nz)]
         \<and> (2 \<le> nx \<and> 2 \<le> ny \<and> 2 \<le> nz \<longrightarrow>
               spec_visits XY nx ny nz ! 0 = (0, 0, 0) \<and> spec_visits XY nx ny nz ! 1 = (1, 0, 0)
               \<and> spec_visits XY nx ny nz ! nat nx = (0, 1, 0)
               \<and> spec_visits XY nx ny nz ! nat (nx * ny) = (0, 0, 1)
               \<and> 1 < nat nx \<and> nat nx < nat (nx * ny)
               \<and> nat (nx * ny) < length (spec_visits XY nx ny nz))"
proof (intro conjI impI)
  have "data_lines (spec_lines (voxel_line den mat org nx ny) (order_indices_of p)
                      (loop_order_of p nx ny nz))
          = map (voxel_line den mat org nx ny) (spec_visits p nx ny nz)"
    by (simp add: data_lines_nested voxel_line_not_blank spec_visits_def projection_table)
  then show "\<exists>body. create_ct_den_mat_file name den mat org nx ny nz lx ly lz
                    (order_indices_of p) (loop_order_of p nx ny nz) fs
                  = (Completed, fs(name \<mapsto> ct_header nx ny nz lx ly lz @ body))
                \<and> data_lines body = map (voxel_line den mat org nx ny) (spec_visits p nx ny nz)"
    using create_ct_den_mat_file_ok [OF assms(4-6)] by blast
  show "map (spec_linear_index nx ny) (spec_visits XY nx ny nz) = map int [0..<nat (nx * ny * nz)]"
    using assms(1-3) by (intro visits_XY_linear) simp_all
next
  assume "2 \<le> nx \<and> 2 \<le> ny \<and> 2 \<le> nz"
  then have g: "2 \<le> nx" "2 \<le> ny" "2 \<le> nz" by simp_all
  show "spec_visits XY nx ny nz ! 0 = (0, 0, 0)" "spec_visits XY nx ny nz ! 1 = (1, 0, 0)"
    "spec_visits XY nx ny nz ! nat nx = (0, 1, 0)" "spec_visits XY nx ny nz ! nat (nx * ny) = (0, 0, 1)"
    "1 < nat nx" "nat nx < nat (nx * ny)" "nat (nx * ny) < length (spec_visits XY nx ny nz)"
    by (rule visits_XY_first [OF g])+
qed

theorem projection_order_witness:
  "(0::int) < 2 \<and> length [1, 1, 2, 2, 3, 3, 4, 4 :: int] = nat (2 * 2 * 2)
   \<and> spec_visits XY 2 2 2 ! 0 = (0, 0, 0) \<and> spec_visits XY 2 2 2 ! 1 = (1, 0, 0)
   \<and> spec_visits XY 2 2 2 ! 2 = (0, 1, 0) \<and> spec_visits XY 2 2 2 ! 4 = (0, 0, 1)
   \<and> map (spec_linear_index 2 2) (spec_visits XY 2 2 2) = map int [0..<8]"
  using projection_order
          [where nx = 2 and ny = 2 and nz = 2 and den = "replicate 8 (Finite False 1)"
             and mat = "[1, 1, 2, 2, 3, 3, 4, 4]" and org = "[1, 1, 2, 2, 3, 3, 4, 4]"
             and name = "''ct-den-matXY.dat''" and lx = 2 and ly = 2 and lz = 2 and p = XY
             and fs = Map.empty]
  by simp

text \<open>
  C2. \<^verbatim>\<open>create_vox_file\<close> is asked for the file out.vox. The seven header lines go to
  out.vox; the row of the one voxel is appended to the file phantom.vox (line 94), and
  out.vox holds no data row.
\<close>

theorem vox_rows_written_to_phantom_vox:
  "create_vox_file ''out.vox'' [1] [Finite False 1] 1 1 1 1 1 1 Map.empty
     = (Completed,
        [''out.vox'' \<mapsto> [''[SECTION VOXELS HEADER v.2008-04-13]'', ''    1   1   1'',
                          '' 1.00000 1.00000 1.00000'', '' 1'', '' 2'', '' 0'',
                          ''[END OF VXH SECTION]''],
         ''phantom.vox'' \<mapsto> [''  1  1.0000'']])"
  by (simp add: create_vox_file_def write_lines_def open_w_def vox_header_unit
        savetxt_row_examples)

text \<open>
  C3. The table gives organ 1 the density -1. The test for negative densities (line 496)
  runs while \<^verbatim>\<open>arr_density\<close> still holds the zeros of line 461; the table is applied
  afterwards (line 543), and the density field of the run holds -1, a negative value.
\<close>

theorem negative_density_stored:
  "readPhantom_fields negative_density_inputs
     = Inr \<lparr>organ_field = [1], material_field = [1], density_field = [Finite True 1]\<rparr>
   \<and> float32_negative (Finite True 1)"
  by (simp add: negative_density_inputs_def fields_eval)

text \<open>
  C4. When the number of organ IDs read differs from \<open>nx * ny * nz\<close>, the run does not
  complete and leaves every file as it was; and when it reaches the check of line 491
  (more than one material, the user continued, the organ list was read, the product is not
  negative) it raises the ValueError that carries the number read and the number expected.
\<close>

theorem voxel_count_mismatch:
  assumes "in_phantom inp = Some arr_organ"
    and "int (length arr_organ) \<noteq> in_n_vox_x inp * in_n_vox_y inp * in_n_vox_z inp"
  shows "snd (readPhantom inp fs) = fs \<and> fst (readPhantom inp fs) \<noteq> Completed
         \<and> (1 < in_material_num inp \<and> in_continue inp \<and> in_organlist inp \<noteq> None
              \<and> 0 \<le> in_n_vox_x inp * in_n_vox_y inp * in_n_vox_z inp
            \<longrightarrow> fst (readPhantom inp fs)
                  = Raised (ValueError_voxel_count (int (length arr_organ))
                              (in_n_vox_x inp * in_n_vox_y inp * in_n_vox_z inp)))"
proof -
  from readPhantom_fields_mismatch [OF assms] obtain stop where
    stop: "readPhantom_fields inp = Inl stop" by blast
  have "stop \<noteq> Completed"
    using stop readPhantom_fields_not_Completed [of inp] by auto
  moreover have "readPhantom inp fs = (stop, fs)"
    using stop by (rule readPhantom_stopped)
  moreover have "stop = Raised (ValueError_voxel_count (int (length arr_organ))
                              (in_n_vox_x inp * in_n_vox_y inp * in_n_vox_z inp))"
    if "1 < in_material_num inp" "in_continue inp" "in_organlist inp \<noteq> None"
       "0 \<le> in_n_vox_x inp * in_n_vox_y inp * in_n_vox_z inp"
  proof -
    from that(3) obtain rows where "in_organlist inp = Some rows" by auto
    from readPhantom_fields_mismatch_reached [OF assms that(1,2) this that(4)] stop
    show ?thesis by simp
  qed
  ultimately show ?thesis by simp
qed

theorem voxel_count_mismatch_witness:
  "in_phantom seven_of_eight_inputs = Some [1, 1, 2, 2, 3, 3, 4]
   \<and> int (length [1, 1, 2, 2, 3, 3, 4 :: int]) \<noteq> 2 * 2 * 2
   \<and> readPhantom seven_of_eight_inputs Map.empty = (Raised (ValueError_voxel_count 7 8), Map.empty)"
  using voxel_count_mismatch [of seven_of_eight_inputs "[1, 1, 2, 2, 3, 3, 4]" Map.empty]
  by (simp add: seven_of_eight_inputs_def prod_eq_iff)

text \<open>
  C5, as the program has it. In a run that reaches the field construction (the phantom
  and the organ list were read, more than one material, the user continued, as many organ
  IDs as voxels, at least one voxel), the construction succeeds exactly when NumPy converts
  every material ID of the table to \<^verbatim>\<open>int16\<close>, and raises \<^verbatim>\<open>OverflowError\<close> otherwise. When
  it succeeds, every voxel whose tag is in the table holds the \<^verbatim>\<open>int16\<close> conversion of the
  table's material, which is the table's material when that lies from -32768 to 32767, and
  the table's density rounded to \<^verbatim>\<open>float32\<close>; every other voxel holds 0 and 0.0.
\<close>

theorem lookup_round_trip:
  assumes "in_phantom inp = Some arr_organ" and "in_organlist inp = Some rows"
    and "1 < in_material_num inp" and "in_continue inp"
    and "int (length arr_organ) = in_n_vox_x inp * in_n_vox_y inp * in_n_vox_z inp"
    and "arr_organ \<noteq> []"
  shows "(list_all (row_storable (in_numpy inp)) rows \<longrightarrow> (\<exists>st. readPhantom_fields inp = Inr st))
         \<and> (\<not> list_all (row_storable (in_numpy inp)) rows
              \<longrightarrow> readPhantom_fields inp = Inl (Raised OverflowError))
         \<and> (\<forall>st. readPhantom_fields inp = Inr st \<longrightarrow>
               organ_field st = arr_organ
               \<and> length (material_field st) = length arr_organ
               \<and> length (density_field st) = length arr_organ
               \<and> (\<forall>i<length arr_organ.
                     (case spec_lookup_table rows (arr_organ ! i) of
                        Some (m, d) \<Rightarrow> to_int16 (in_numpy inp) m = Inr (material_field st ! i)
                                      \<and> density_field st ! i = float32_of d
                      | None \<Rightarrow> material_field st ! i = 0
                                \<and> density_field st ! i = Finite False 0)))
         \<and> (\<forall>m. - 32768 \<le> m \<and> m \<le> 32767 \<longrightarrow> to_int16 (in_numpy inp) m = Inr m)"
proof (intro conjI impI allI)
  show "\<exists>st. readPhantom_fields inp = Inr st"
    if "list_all (row_storable (in_numpy inp)) rows"
    using that by (rule readPhantom_fields_completes(1) [OF assms])
  show "readPhantom_fields inp = Inl (Raised OverflowError)"
    if "\<not> list_all (row_storable (in_numpy inp)) rows"
    using that by (rule readPhantom_fields_completes(2) [OF assms])
  show "to_int16 (in_numpy inp) m = Inr m" if "- 32768 \<le> m \<and> m \<le> 32767" for m
    using that by (simp add: to_int16_in_range)
next
  fix st
  assume run: "readPhantom_fields inp = Inr st"
  note build = readPhantom_fields_build [OF assms run]
  show "organ_field st = arr_organ" using build by simp
  show "length (material_field st) = length arr_organ" using build by (simp add: aligned_def)
  show "length (density_field st) = length arr_organ" using build by (simp add: aligned_def)
  fix i
  assume "i < length arr_organ"
  then show "case spec_lookup_table rows (arr_organ ! i) of
               Some (m, d) \<Rightarrow> to_int16 (in_numpy inp) m = Inr (material_field st ! i)
                             \<and> density_field st ! i = float32_of d
             | None \<Rightarrow> material_field st ! i = 0 \<and> density_field st ! i = Finite False 0"
    using build by simp
qed

theorem lookup_round_trip_witness:
  "readPhantom_fields round_trip_inputs
     = Inr \<lparr>organ_field = [7, 9], material_field = [4, 0],
            density_field = [Finite False 5, Finite False 0]\<rparr>
   \<and> spec_lookup_table [(7, 3, 2), (7, 4, 5)] 7 = Some (4, 5)
   \<and> spec_lookup_table [(7, 3, 2), (7, 4, 5)] 9 = None
   \<and> list_all (row_storable NumPy_2) [(7, 3, 2), (7, 4, 5)]
   \<and> to_int16 NumPy_2 4 = Inr 4 \<and> float32_of 5 = Finite False 5"
  using lookup_round_trip [of round_trip_inputs "[7, 9]" "[(7, 3, 2), (7, 4, 5)]"]
  by (simp add: round_trip_inputs_def fields_eval spec_lookup_table_def)

text \<open>
  C5 fails on the program. The table gives organ 1 the density 1.05: the voxel holds the
  \<^verbatim>\<open>float32\<close> value 4404019 / 4194304 (about 1.04999995), which is not 1.05. The table
  gives organ 1 the material 40000: before NumPy 2.0 the voxel holds -25536, and from
  NumPy 2.0 on the run ends with \<^verbatim>\<open>OverflowError\<close>.
\<close>

theorem lookup_round_trip_not_exact:
  "readPhantom_fields inexact_density_inputs
     = Inr \<lparr>organ_field = [1], material_field = [1],
            density_field = [Finite False (4404019 / 4194304)]\<rparr>
   \<and> spec_lookup_table [(1, 1, 105 / 100)] 1 = Some (1, 105 / 100)
   \<and> (4404019 / 4194304 :: real) \<noteq> 105 / 100
   \<and> readPhantom_fields (large_material_inputs NumPy_1)
       = Inr \<lparr>organ_field = [1], material_field = [- 25536], density_field = [Finite False 1]\<rparr>
   \<and> spec_lookup_table [(1, 40000, 1)] 1 = Some (40000, 1)
   \<and> readPhantom_fields (large_material_inputs NumPy_2) = Inl (Raised OverflowError)"
  by (simp add: inexact_density_inputs_def large_material_inputs_def fields_eval float32_of_inexact
        spec_lookup_table_def)

text \<open>
  C6, as the program has it. With fewer than two materials the run raises the ValueError
  of line 401 (once the phantom file was found) and no file is written; a grid whose
  number of voxels \<open>nx * ny * nz\<close> is zero or negative never completes and writes no file
  either. The dimensions one by one and the resolutions are not examined.
\<close>

theorem invalid_configuration_checked:
  "(in_material_num inp \<le> 1 \<longrightarrow>
      snd (readPhantom inp fs) = fs \<and> fst (readPhantom inp fs) \<noteq> Completed
      \<and> (in_phantom inp \<noteq> None \<longrightarrow> fst (readPhantom inp fs) = Raised ValueError_materials))
   \<and> (in_n_vox_x inp * in_n_vox_y inp * in_n_vox_z inp \<le> 0 \<longrightarrow>
      snd (readPhantom inp fs) = fs \<and> fst (readPhantom inp fs) \<noteq> Completed)"
proof (intro conjI impI)
  assume m: "in_material_num inp \<le> 1"
  from readPhantom_fields_materials [OF m] obtain stop where
    stop: "readPhantom_fields inp = Inl stop" by (auto split: option.splits)
  have r: "readPhantom inp fs = (stop, fs)" using stop by (rule readPhantom_stopped)
  show "snd (readPhantom inp fs) = fs" by (simp add: r)
  show "fst (readPhantom inp fs) \<noteq> Completed"
    using stop readPhantom_fields_not_Completed [of inp] by (auto simp: r)
  show "fst (readPhantom inp fs) = Raised ValueError_materials" if "in_phantom inp \<noteq> None"
    using that stop readPhantom_fields_materials [OF m] by (auto simp: r)
next
  assume z: "in_n_vox_x inp * in_n_vox_y inp * in_n_vox_z inp \<le> 0"
  from readPhantom_fields_no_voxels [OF z] obtain stop where
    stop: "readPhantom_fields inp = Inl stop" by blast
  have r: "readPhantom inp fs = (stop, fs)" using stop by (rule readPhantom_stopped)
  show "snd (readPhantom inp fs) = fs" by (simp add: r)
  show "fst (readPhantom inp fs) \<noteq> Completed"
    using stop readPhantom_fields_not_Completed [of inp] by (auto simp: r)
qed

theorem invalid_configuration_checked_witness:
  "in_material_num one_material_inputs \<le> 1 \<and> in_phantom one_material_inputs \<noteq> None
   \<and> readPhantom one_material_inputs Map.empty = (Raised ValueError_materials, Map.empty)
   \<and> in_n_vox_x no_voxel_inputs * in_n_vox_y no_voxel_inputs * in_n_vox_z no_voxel_inputs \<le> 0
   \<and> readPhantom no_voxel_inputs Map.empty = (Raised ValueError_zero_size, Map.empty)"
  using invalid_configuration_checked [of one_material_inputs Map.empty]
    invalid_configuration_checked [of no_voxel_inputs Map.empty]
  by (simp add: one_material_inputs_def no_voxel_inputs_def prod_eq_iff readPhantom_def fields_eval)

text \<open>
  C6 fails on the program. A resolution of 0 in x and of -1 in y, and the dimensions
  -1, -1, 1 (whose product is 1), are both accepted: the run completes and writes its files.
\<close>

theorem unvalidated_configurations_complete:
  "in_vox_res_x nonpositive_resolution_inputs \<le> 0 \<and> in_vox_res_y nonpositive_resolution_inputs \<le> 0
   \<and> fst (readPhantom nonpositive_resolution_inputs Map.empty) = Completed
   \<and> snd (readPhantom nonpositive_resolution_inputs Map.empty) ''phantom.vox'' \<noteq> None
   \<and> in_n_vox_x negative_dimension_inputs \<le> 0 \<and> in_n_vox_y negative_dimension_inputs \<le> 0
   \<and> fst (readPhantom negative_dimension_inputs Map.empty) = Completed
   \<and> snd (readPhantom negative_dimension_inputs Map.empty) ''phantom.vox'' \<noteq> None"
proof -
  have f: "readPhantom_fields nonpositive_resolution_inputs
             = Inr \<lparr>organ_field = [1], material_field = [1],
                    density_field = [Finite False 1]\<rparr>"
    by (simp add: nonpositive_resolution_inputs_def fields_eval)
  have g: "readPhantom_fields negative_dimension_inputs
             = Inr \<lparr>organ_field = [1], material_field = [1],
                    density_field = [Finite False 1]\<rparr>"
    by (simp add: negative_dimension_inputs_def fields_eval)
  have "fst (readPhantom nonpositive_resolution_inputs Map.empty) = Completed
        \<and> snd (readPhantom nonpositive_resolution_inputs Map.empty) ''phantom.vox'' \<noteq> None"
    unfolding readPhantom_def f by (simp add: run_eval nonpositive_resolution_inputs_def)
  moreover have "fst (readPhantom negative_dimension_inputs Map.empty) = Completed
        \<and> snd (readPhantom negative_dimension_inputs Map.empty) ''phantom.vox'' \<noteq> None"
    unfolding readPhantom_def g by (simp add: run_eval negative_dimension_inputs_def)
  ultimately show ?thesis
    by (simp add: nonpositive_resolution_inputs_def negative_dimension_inputs_def)
qed

text \<open>
  C7, as the program has it. The header of a projection file has eleven lines, each
  beginning with #; whatever the arguments, the file consists of this header followed by
  lines that all begin with a space (the data lines and the separators), none when an
  index error ended the loops.
\<close>

theorem projection_header_eleven_lines:
  "length (ct_header nx ny nz lx ly lz) = 11
   \<and> (\<forall>h\<in>set (ct_header nx ny nz lx ly lz). take 1 h = ''#'')
   \<and> (\<exists>body. snd (create_ct_den_mat_file name den mat org nx ny nz lx ly lz order_indices
                     loop_order fs) name
                = Some (ct_header nx ny nz lx ly lz @ body)
              \<and> (\<forall>l\<in>set body. take 1 l = '' ''))"
  using ct_header_shape [of nx ny nz lx ly lz]
    create_ct_den_mat_file_layout [of name den mat org nx ny nz lx ly lz order_indices
      loop_order fs]
  by simp

theorem projection_header_eleven_lines_witness:
  "length (ct_header 1 1 1 1 1 1) = 11
   \<and> snd (create_ct_den_mat_file ''ct-den-matXY.dat'' [Finite False 1] [1] [1] 1 1 1 1 1 1
            order_indices_xy (1, 1, 1) Map.empty) ''ct-den-matXY.dat''
       = Some (ct_header 1 1 1 1 1 1 @ [ct_line 0 0 0 (Finite False 1) 1 1, '' '', '' ''])
   \<and> take 1 (ct_line 0 0 0 (Finite False 1) 1 1) = '' ''"
  using projection_header_eleven_lines
          [where nx = 1 and ny = 1 and nz = 1 and lx = 1 and ly = 1 and lz = 1
             and name = "''ct-den-matXY.dat''" and den = "[Finite False 1]" and mat = "[1]"
             and org = "[1]"
             and order_indices = order_indices_xy and loop_order = "(1, 1, 1)"
             and fs = Map.empty]
  by (simp add: unit_ct_file)

text \<open>
  C7 fails on the program: in the XY file of a grid of one voxel, the tenth and the
  eleventh line are header lines, and the first data line is the twelfth.
\<close>

theorem projection_header_not_nine_lines:
  "file_line (snd (create_ct_den_mat_file ''ct-den-matXY.dat'' [Finite False 1] [1] [1] 1 1 1 1 1 1
                     order_indices_xy (1, 1, 1) Map.empty)) ''ct-den-matXY.dat'' 9
     = Some ''#  5th column: material. 6th column: organ ID''
   \<and> file_line (snd (create_ct_den_mat_file ''ct-den-matXY.dat'' [Finite False 1] [1] [1] 1 1 1 1 1 1
                       order_indices_xy (1, 1, 1) Map.empty)) ''ct-den-matXY.dat'' 10
     = Some ''#  CT structure (GNUPLOT format).''
   \<and> file_line (snd (create_ct_den_mat_file ''ct-den-matXY.dat'' [Finite False 1] [1] [1] 1 1 1 1 1 1
                       order_indices_xy (1, 1, 1) Map.empty)) ''ct-den-matXY.dat'' 11
     = Some ''   1   1   1 1.00000e+00    1    1''"
  by (simp add: unit_ct_file file_line_def ct_header_unit ct_line_unit)

text \<open>
  C8. For arrays of nx * ny * nz elements, each projection file is its header followed,
  for every value of the outer index, by one block: for every value of the middle index
  the lines of the inner loop and one separator line, then one more separator line. The
  separator is a line of one space, no data line is blank, and with positive extents a
  block ends with a data line and two separators.
\<close>

theorem blank_line_structure:
  assumes "length den = nat (nx * ny * nz)" and "length mat = nat (nx * ny * nz)"
    and "length org = nat (nx * ny * nz)"
    and "loop_order_of p nx ny nz = (n_outer, n_middle, n_inner)"
  shows "create_ct_den_mat_file name den mat org nx ny nz lx ly lz
             (order_indices_of p) (loop_order_of p nx ny nz) fs
           = (Completed,
              fs(name \<mapsto> ct_header nx ny nz lx ly lz
                   @ concat (map (spec_outer_block (voxel_line den mat org nx ny) (order_indices_of p)
                                    n_middle n_inner) (py_range n_outer))))
         \<and> blank_line '' ''
         \<and> (\<forall>outer middle. \<exists>scan.
               spec_row_scan (voxel_line den mat org nx ny) (order_indices_of p) n_inner outer middle
                 = scan @ ['' '']
               \<and> length scan = nat n_inner \<and> (\<forall>l\<in>set scan. \<not> blank_line l))
         \<and> (\<forall>outer. spec_outer_block (voxel_line den mat org nx ny) (order_indices_of p)
                        n_middle n_inner outer
                      = concat (map (spec_row_scan (voxel_line den mat org nx ny) (order_indices_of p)
                                       n_inner outer) (py_range n_middle)) @ ['' ''])
         \<and> (0 < n_middle \<and> 0 < n_inner \<longrightarrow>
               (\<forall>outer. \<exists>front l. spec_outer_block (voxel_line den mat org nx ny) (order_indices_of p)
                                     n_middle n_inner outer
                                   = front @ [l, '' '', '' ''] \<and> \<not> blank_line l))"
proof (intro conjI allI impI)
  show "create_ct_den_mat_file name den mat org nx ny nz lx ly lz
             (order_indices_of p) (loop_order_of p nx ny nz) fs
           = (Completed,
              fs(name \<mapsto> ct_header nx ny nz lx ly lz
                   @ concat (map (spec_outer_block (voxel_line den mat org nx ny) (order_indices_of p)
                                    n_middle n_inner) (py_range n_outer))))"
    using create_ct_den_mat_file_ok [OF assms(1-3), of name lx ly lz p fs]
    by (simp add: assms(4) spec_lines.simps)
  show "blank_line '' ''" by (rule blank_separator)
  show "\<exists>scan. spec_row_scan (voxel_line den mat org nx ny) (order_indices_of p) n_inner outer middle
                 = scan @ ['' '']
               \<and> length scan = nat n_inner \<and> (\<forall>l\<in>set scan. \<not> blank_line l)" for outer middle
    by (rule row_scan_shape) (rule voxel_line_not_blank)
  show "spec_outer_block (voxel_line den mat org nx ny) (order_indices_of p) n_middle n_inner outer
          = concat (map (spec_row_scan (voxel_line den mat org nx ny) (order_indices_of p)
                           n_inner outer) (py_range n_middle)) @ ['' '']" for outer
    by (simp add: spec_outer_block_def)
next
  fix outer
  assume "0 < n_middle \<and> 0 < n_inner"
  then have "\<exists>front. spec_outer_block (voxel_line den mat org nx ny) (order_indices_of p)
                        n_middle n_inner outer
              = front @ [voxel_line den mat org nx ny
                           (order_indices_of p outer (n_middle - 1) (n_inner - 1)), '' '', '' '']"
    by (intro outer_block_end) simp_all
  then show "\<exists>front l. spec_outer_block (voxel_line den mat org nx ny) (order_indices_of p)
                          n_middle n_inner outer
                        = front @ [l, '' '', '' ''] \<and> \<not> blank_line l"
    using voxel_line_not_blank by blast
qed

theorem blank_line_structure_witness:
  "length [Finite False 1] = nat (1 * 1 * 1) \<and> loop_order_of XY 1 1 1 = (1, 1, 1)
   \<and> create_ct_den_mat_file ''ct-den-matXY.dat'' [Finite False 1] [1] [1] 1 1 1 1 1 1
        (order_indices_of XY) (loop_order_of XY 1 1 1) Map.empty
     = (Completed,
        [''ct-den-matXY.dat'' \<mapsto>
           ct_header 1 1 1 1 1 1 @ [voxel_line [Finite False 1] [1] [1] 1 1 (0, 0, 0), '' '', '' '']])
   \<and> \<not> blank_line (voxel_line [Finite False 1] [1] [1] 1 1 (0, 0, 0))"
  using blank_line_structure
          [where den = "[Finite False 1]" and mat = "[1]" and org = "[1]"
             and nx = 1 and ny = 1 and nz = 1
             and p = XY and n_outer = 1 and n_middle = 1 and n_inner = 1
             and name = "''ct-den-matXY.dat''" and lx = 1 and ly = 1 and lz = 1
             and fs = Map.empty]
    voxel_line_not_blank [of "[Finite False 1]" "[1]" "[1]" 1 1 "(0, 0, 0)"]
  by (simp add: spec_outer_block_def spec_row_scan_def py_range_def order_indices_xy_def)

text \<open>
  C9, as the program writes the rows: the material in a field of three characters, a
  space, the density in a field of seven characters.
\<close>

theorem cube_vox_rows:
  "vox_data_rows (snd (readPhantom cube_inputs Map.empty)) ''phantom.vox''
     = Some [''  1  1.0000'', ''  1  1.0000'', ''  2  2.0000'', ''  2  2.0000'',
             ''  3  3.0000'', ''  3  3.0000'', ''  4  4.0000'', ''  4  4.0000'']"
  by (simp add: vox_data_rows_def cube_vox_file vox_header_length)

text \<open>
  C9 fails on the program for the rows as the claim writes them, with one space before the
  material and one before the density.
\<close>

theorem cube_vox_rows_not_as_claimed:
  "vox_data_rows (snd (readPhantom cube_inputs Map.empty)) ''phantom.vox''
     \<noteq> Some ['' 1 1.0000'', '' 1 1.0000'', '' 2 2.0000'', '' 2 2.0000'',
             '' 3 3.0000'', '' 3 3.0000'', '' 4 4.0000'', '' 4 4.0000'']"
  by (simp add: vox_data_rows_def cube_vox_file vox_header_length)

text \<open>
  C10. The assignment pass writes \<^verbatim>\<open>arr_material\<close> and \<^verbatim>\<open>arr_density\<close> only: whenever
  it completes, the organ field is the one it started from. When the three arrays have the
  same length, as they do in a run, it completes for every table whose material IDs NumPy
  converts to \<^verbatim>\<open>int16\<close>, and ends with \<^verbatim>\<open>OverflowError\<close> for every other table.
\<close>

theorem assignment_pass_keeps_organ_field:
  "(\<forall>st'. assign_rows numpy rows st = Inr st' \<longrightarrow> organ_field st' = organ_field st)
   \<and> (aligned st \<and> list_all (row_storable numpy) rows
        \<longrightarrow> (\<exists>st'. assign_rows numpy rows st = Inr st'))
   \<and> (aligned st \<and> \<not> list_all (row_storable numpy) rows
        \<longrightarrow> assign_rows numpy rows st = Inl OverflowError)"
  using assign_rows_organ [of numpy rows st] assign_rows_completes [of st numpy rows]
    assign_rows_refused [of st numpy rows]
  by blast

theorem assignment_pass_keeps_organ_field_witness:
  "aligned \<lparr>organ_field = [1, 2], material_field = [0, 0],
            density_field = [Finite False 0, Finite False 0]\<rparr>
   \<and> list_all (row_storable NumPy_2) [(1, 5, 3)]
   \<and> assign_rows NumPy_2 [(1, 5, 3)]
         \<lparr>organ_field = [1, 2], material_field = [0, 0],
           density_field = [Finite False 0, Finite False 0]\<rparr>
       = Inr \<lparr>organ_field = [1, 2], material_field = [5, 0],
              density_field = [Finite False 3, Finite False 0]\<rparr>
   \<and> organ_field \<lparr>organ_field = [1, 2], material_field = [5, 0],
                   density_field = [Finite False 3, Finite False 0]\<rparr>
       = organ_field \<lparr>organ_field = [1, 2], material_field = [0, 0],
                       density_field = [Finite False 0, Finite False 0]\<rparr>"
  using assignment_pass_keeps_organ_field
          [of NumPy_2 "[(1, 5, 3)]"
              "\<lparr>organ_field = [1, 2], material_field = [0, 0],
                density_field = [Finite False 0, Finite False 0]\<rparr>"]
  by (simp add: fields_eval)

end
